theory Spec2Isabelle
  imports Complex_Main "HOL-Library.Log_Nat"
begin

section \<open>C floating point as the sketch uses it\<close>

text \<open>
  The position record of \<^verbatim>\<open>eCurtains.ino\<close> holds C \<^verbatim>\<open>float\<close>s, and two
  expressions of the sketch are computed in \<^verbatim>\<open>double\<close>.  On the ESP8266 these are
  IEEE 754 binary32 and binary64, every operation rounded to nearest, ties to even.
  A value is kept by its class: a NaN (the payload is dropped), the two infinities,
  negative zero, and a finite number (\<open>Fin 0\<close> is positive zero).  The operations
  take the format as precision \<open>p\<close> and largest exponent \<open>emax\<close>.
\<close>

datatype fp = NaN | PInf | NInf | NegZero | Fin real

fun fp_val :: "fp \<Rightarrow> real" where
  "fp_val (Fin x) = x"
| "fp_val _ = 0"

fun fp_rank :: "fp \<Rightarrow> int" where
  "fp_rank NInf = -1"
| "fp_rank PInf = 1"
| "fp_rank _ = 0"

fun is_nan :: "fp \<Rightarrow> bool" where
  "is_nan NaN = True"
| "is_nan _ = False"

fun is_inf :: "fp \<Rightarrow> bool" where
  "is_inf PInf = True"
| "is_inf NInf = True"
| "is_inf _ = False"

fun is_zero :: "fp \<Rightarrow> bool" where
  "is_zero NegZero = True"
| "is_zero (Fin x) = (x = 0)"
| "is_zero _ = False"

fun is_finite :: "fp \<Rightarrow> bool" where
  "is_finite NegZero = True"
| "is_finite (Fin x) = True"
| "is_finite _ = False"

text \<open>The sign bit: \<open>True\<close> is negative.\<close>

fun fp_sign :: "fp \<Rightarrow> bool" where
  "fp_sign NInf = True"
| "fp_sign NegZero = True"
| "fp_sign (Fin x) = (x < 0)"
| "fp_sign _ = False"

definition signed_zero :: "bool \<Rightarrow> fp" where
  "signed_zero neg = (if neg then NegZero else Fin 0)"

definition signed_inf :: "bool \<Rightarrow> fp" where
  "signed_inf neg = (if neg then NInf else PInf)"

text \<open>
  The comparisons of C, \<^verbatim>\<open><\<close>, \<^verbatim>\<open>>\<close> and \<^verbatim>\<open><=\<close>: false as soon as an operand is a NaN,
  and the two zeros compare equal.
\<close>

definition fp_lt :: "fp \<Rightarrow> fp \<Rightarrow> bool" where
  "fp_lt a b = (\<not> is_nan a \<and> \<not> is_nan b \<and>
     (fp_rank a < fp_rank b \<or> (fp_rank a = fp_rank b \<and> fp_val a < fp_val b)))"

definition fp_gt :: "fp \<Rightarrow> fp \<Rightarrow> bool" where
  "fp_gt a b = fp_lt b a"

definition fp_le :: "fp \<Rightarrow> fp \<Rightarrow> bool" where
  "fp_le a b = (\<not> is_nan a \<and> \<not> is_nan b \<and>
     (fp_rank a < fp_rank b \<or> (fp_rank a = fp_rank b \<and> fp_val a \<le> fp_val b)))"

fun fp_neg :: "fp \<Rightarrow> fp" where
  "fp_neg NaN = NaN"
| "fp_neg PInf = NInf"
| "fp_neg NInf = PInf"
| "fp_neg NegZero = Fin 0"
| "fp_neg (Fin x) = (if x = 0 then NegZero else Fin (- x))"

fun fp_abs :: "fp \<Rightarrow> fp" where
  "fp_abs NaN = NaN"
| "fp_abs PInf = PInf"
| "fp_abs NInf = PInf"
| "fp_abs NegZero = Fin 0"
| "fp_abs (Fin x) = Fin \<bar>x\<bar>"

subsection \<open>Rounding to nearest, ties to even\<close>

text \<open>\<open>ilog2 x\<close> is the exponent of a positive \<open>x\<close>: \<open>2 ^ ilog2 x \<le> x < 2 ^ (ilog2 x + 1)\<close>.\<close>

definition ilog2 :: "real \<Rightarrow> int" where
  "ilog2 x = (if 1 \<le> x then bitlen \<lfloor>x\<rfloor> - 1 else - bitlen (\<lceil>1 / x\<rceil> - 1))"

definition round_even :: "real \<Rightarrow> int" where
  "round_even y =
     (let f = \<lfloor>y\<rfloor>; d = y - of_int f
      in if d < 1 / 2 then f
         else if 1 / 2 < d then f + 1
         else if even f then f else f + 1)"

text \<open>
  The spacing of the format around \<open>x\<close>: with \<open>p\<close> digits the numbers of exponent \<open>e\<close>
  are the multiples of \<open>2 ^ (e - (p - 1))\<close>; below the smallest normal exponent
  \<open>1 - emax\<close> the spacing stays that of the subnormal numbers.
\<close>

definition quantum :: "nat \<Rightarrow> int \<Rightarrow> real \<Rightarrow> real" where
  "quantum p emax x = 2 powi (max (1 - emax) (ilog2 \<bar>x\<bar>) - (int p - 1))"

text \<open>
  \<open>fp_round p emax x\<close> rounds the real \<open>x\<close> into the format: \<open>x\<close> goes to the nearest
  multiple of the spacing, the even one of two that are equally near, and a result of
  magnitude \<open>2 ^ (emax + 1)\<close> or more overflows to an infinity.
\<close>

definition fp_round :: "nat \<Rightarrow> int \<Rightarrow> real \<Rightarrow> fp" where
  "fp_round p emax x =
     (if x = 0 then Fin 0
      else
        let r = of_int (round_even (x / quantum p emax x)) * quantum p emax x
        in if 2 powi (emax + 1) \<le> \<bar>r\<bar> then signed_inf (x < 0)
           else if r = 0 then signed_zero (x < 0)
           else Fin r)"

subsection \<open>Arithmetic\<close>

definition fp_add :: "nat \<Rightarrow> int \<Rightarrow> fp \<Rightarrow> fp \<Rightarrow> fp" where
  "fp_add p emax a b =
     (if is_nan a \<or> is_nan b then NaN
      else if is_inf a \<and> is_inf b then (if a = b then a else NaN)
      else if is_inf a then a
      else if is_inf b then b
      else if a = NegZero \<and> b = NegZero then NegZero
      else fp_round p emax (fp_val a + fp_val b))"

definition fp_sub :: "nat \<Rightarrow> int \<Rightarrow> fp \<Rightarrow> fp \<Rightarrow> fp" where
  "fp_sub p emax a b = fp_add p emax a (fp_neg b)"

definition fp_mul :: "nat \<Rightarrow> int \<Rightarrow> fp \<Rightarrow> fp \<Rightarrow> fp" where
  "fp_mul p emax a b =
     (if is_nan a \<or> is_nan b then NaN
      else if (is_inf a \<and> is_zero b) \<or> (is_zero a \<and> is_inf b) then NaN
      else if is_inf a \<or> is_inf b then signed_inf (fp_sign a \<noteq> fp_sign b)
      else if is_zero a \<or> is_zero b then signed_zero (fp_sign a \<noteq> fp_sign b)
      else fp_round p emax (fp_val a * fp_val b))"

definition fp_div :: "nat \<Rightarrow> int \<Rightarrow> fp \<Rightarrow> fp \<Rightarrow> fp" where
  "fp_div p emax a b =
     (if is_nan a \<or> is_nan b then NaN
      else if (is_inf a \<and> is_inf b) \<or> (is_zero a \<and> is_zero b) then NaN
      else if is_inf a \<or> is_zero b then signed_inf (fp_sign a \<noteq> fp_sign b)
      else if is_inf b \<or> is_zero a then signed_zero (fp_sign a \<noteq> fp_sign b)
      else fp_round p emax (fp_val a / fp_val b))"

text \<open>The two formats, and the conversions the sketch makes between them.\<close>

definition f32_add :: "fp \<Rightarrow> fp \<Rightarrow> fp" where
  "f32_add = fp_add 24 127"

definition f32_sub :: "fp \<Rightarrow> fp \<Rightarrow> fp" where
  "f32_sub = fp_sub 24 127"

definition f32_mul :: "fp \<Rightarrow> fp \<Rightarrow> fp" where
  "f32_mul = fp_mul 24 127"

definition f64_sub :: "fp \<Rightarrow> fp \<Rightarrow> fp" where
  "f64_sub = fp_sub 53 1023"

definition f64_mul :: "fp \<Rightarrow> fp \<Rightarrow> fp" where
  "f64_mul = fp_mul 53 1023"

definition f64_div :: "fp \<Rightarrow> fp \<Rightarrow> fp" where
  "f64_div = fp_div 53 1023"

text \<open>Half the distance between neighbouring \<^verbatim>\<open>float\<close>s around \<open>x\<close>.\<close>

definition f32_half_ulp :: "real \<Rightarrow> real" where
  "f32_half_ulp x = quantum 24 127 x / 2"

text \<open>The reals that are \<^verbatim>\<open>float\<close>s: rounding does not change them.\<close>

definition is_f32 :: "real \<Rightarrow> bool" where
  "is_f32 x = (fp_round 24 127 x = Fin x)"

text \<open>A \<^verbatim>\<open>double\<close> stored into a \<^verbatim>\<open>float\<close> is rounded once more.\<close>

fun f64_to_f32 :: "fp \<Rightarrow> fp" where
  "f64_to_f32 (Fin x) = fp_round 24 127 x"
| "f64_to_f32 a = a"

text \<open>
  A decimal literal of the source handed over as a \<^verbatim>\<open>float\<close>: the compiler rounds it
  to \<^verbatim>\<open>double\<close>, the conversion to \<^verbatim>\<open>float\<close>.
\<close>

definition float_lit :: "real \<Rightarrow> fp" where
  "float_lit x = f64_to_f32 (fp_round 53 1023 x)"

text \<open>A \<^verbatim>\<open>long\<close> (32 bits on this target) converts to \<^verbatim>\<open>double\<close> without rounding.\<close>

definition long_to_f64 :: "int \<Rightarrow> fp" where
  "long_to_f64 n = fp_round 53 1023 (of_int n)"

text \<open>
  A \<^verbatim>\<open>float\<close> passed where a \<^verbatim>\<open>long\<close> is expected is truncated towards zero; C++ leaves
  the conversion undefined when the truncated value does not fit (\<open>None\<close>).
\<close>

definition f32_to_long :: "fp \<Rightarrow> int option" where
  "f32_to_long a =
     (case a of
        Fin x \<Rightarrow>
          (let t = (if 0 \<le> x then \<lfloor>x\<rfloor> else \<lceil>x\<rceil>)
           in if - (2 ^ 31) \<le> t \<and> t < 2 ^ 31 then Some t else None)
      | NegZero \<Rightarrow> Some 0
      | _ \<Rightarrow> None)"

section \<open>The state of the sketch\<close>

text \<open>
  \<open>settings\<close> is the structure \<^verbatim>\<open>g_data\<close> that the sketch reads from and writes to
  the EEPROM.  Character arrays are strings (assumed to fit their buffers).
\<close>

record settings =
  ssid :: string
  password :: string
  version :: fp
  hostname :: string
  apikey :: string
  apikey_set :: int
  position_left :: fp
  position_current_previous :: fp
  position_current :: fp
  position_right :: fp
  language :: int
  web_user :: string
  web_password :: string
  motor_acceleration :: fp
  motor_max_speed :: fp
  steps_per_revolution :: fp
  stepper_motor_and_driver :: int

definition DEFAULT_POSITION_LEFT :: fp where
  "DEFAULT_POSITION_LEFT = Fin (- 100)"

definition DEFAULT_POSITION_CURRENT_PREVIOUS :: fp where
  "DEFAULT_POSITION_CURRENT_PREVIOUS = Fin 0"

definition DEFAULT_POSITION_CURRENT :: fp where
  "DEFAULT_POSITION_CURRENT = Fin 0"

definition DEFAULT_POSITION_RIGHT :: fp where
  "DEFAULT_POSITION_RIGHT = Fin 100"

text \<open>\<^verbatim>\<open>#define g_epsilon 0.00001\<close>: the \<^verbatim>\<open>double\<close> nearest to that decimal.\<close>

definition g_epsilon :: fp where
  "g_epsilon = fp_round 53 1023 (1 / 100000)"

definition LENGTH_API_KEY :: nat where
  "LENGTH_API_KEY = 64"

definition g_default_api_key :: string where
  "g_default_api_key = ''27031969''"

text \<open>An EEPROM block filled with zero bytes, read back as the structure.\<close>

definition zero_settings :: settings where
  "zero_settings =
     \<lparr>ssid = [], password = [], version = Fin 0, hostname = [], apikey = [],
      apikey_set = 0, position_left = Fin 0, position_current_previous = Fin 0,
      position_current = Fin 0, position_right = Fin 0, language = 0,
      web_user = [], web_password = [], motor_acceleration = Fin 0,
      motor_max_speed = Fin 0, steps_per_revolution = Fin 0,
      stepper_motor_and_driver = 0\<rparr>"

subsection \<open>The stepper motor\<close>

text \<open>
  \<^verbatim>\<open>g_AccelStepper\<close> belongs to the AccelStepper library.  The model keeps what the
  sketch reads back from it, \<^verbatim>\<open>isRunning()\<close> and \<^verbatim>\<open>currentPosition()\<close>, and the
  calls made on it and on the motor pins, in order.  \<^verbatim>\<open>setCurrentPosition\<close> sets the
  step counter and halts the motor (target and speed are reset with it); \<^verbatim>\<open>move\<close> sets
  a target relative to the counter; \<^verbatim>\<open>stop\<close> only plans a deceleration, the counter
  is as it was.  What \<^verbatim>\<open>run()\<close> does to the motor is a parameter of \<open>loop\<close>.
\<close>

datatype hw_call =
    EnableOutputs
  | DisableOutputs
  | SleepPin bool
  | SetCurrentPosition int
  | Move "int option"
  | Stop
  | SetAcceleration fp
  | SetMaxSpeed fp

record stepper =
  isRunning :: bool
  currentPosition :: int
  calls :: "hw_call list"

definition enableOutputs :: "stepper \<Rightarrow> stepper" where
  "enableOutputs m = m\<lparr>calls := calls m @ [EnableOutputs]\<rparr>"

definition disableOutputs :: "stepper \<Rightarrow> stepper" where
  "disableOutputs m = m\<lparr>calls := calls m @ [DisableOutputs]\<rparr>"

text \<open>\<^verbatim>\<open>pinMode(MOTOR_PIN3, OUTPUT); digitalWrite(MOTOR_PIN3, v)\<close>, the sleep pin of the A4988.\<close>

definition sleep_pin :: "bool \<Rightarrow> stepper \<Rightarrow> stepper" where
  "sleep_pin high m = m\<lparr>calls := calls m @ [SleepPin high]\<rparr>"

definition setCurrentPosition :: "int \<Rightarrow> stepper \<Rightarrow> stepper" where
  "setCurrentPosition p m =
     m\<lparr>isRunning := False, currentPosition := p, calls := calls m @ [SetCurrentPosition p]\<rparr>"

definition move :: "int option \<Rightarrow> stepper \<Rightarrow> stepper" where
  "move n m = m\<lparr>isRunning := (isRunning m \<or> n \<noteq> Some 0), calls := calls m @ [Move n]\<rparr>"

definition stop :: "stepper \<Rightarrow> stepper" where
  "stop m = m\<lparr>calls := calls m @ [Stop]\<rparr>"

definition setAcceleration :: "fp \<Rightarrow> stepper \<Rightarrow> stepper" where
  "setAcceleration a m = m\<lparr>calls := calls m @ [SetAcceleration a]\<rparr>"

definition setMaxSpeed :: "fp \<Rightarrow> stepper \<Rightarrow> stepper" where
  "setMaxSpeed v m = m\<lparr>calls := calls m @ [SetMaxSpeed v]\<rparr>"

subsection \<open>The whole state\<close>

text \<open>
  The body of an HTTP answer: a fixed text, a \<^verbatim>\<open>sprintf\<close> of a format with its
  arguments, or the page \<^verbatim>\<open>get_page()\<close> renders.
\<close>

datatype arg = S string | F fp | I int

datatype body =
    Text string
  | Fmt string "arg list"
  | Page

text \<open>
  \<open>eeprom\<close> is the structure as last committed (\<^verbatim>\<open>EEPROM.put\<close> with \<^verbatim>\<open>EEPROM.commit\<close>),
  \<open>serial\<close> the lines written with \<^verbatim>\<open>Serial.println\<close> of a literal (the dumps of
  values printed piecewise are left out), \<open>sent\<close> the answers given with
  \<^verbatim>\<open>server.send\<close> (status code and body), \<open>restarted\<close> whether \<^verbatim>\<open>ESP.restart()\<close> was
  called.  The built-in LED and the delays are left out.
\<close>

record state =
  g_data :: settings
  eeprom :: settings
  motor :: stepper
  serial :: "string list"
  sent :: "(nat \<times> body) list"
  restarted :: bool

definition println :: "string \<Rightarrow> state \<Rightarrow> state" where
  "println l s = s\<lparr>serial := serial s @ [l]\<rparr>"

definition send :: "nat \<Rightarrow> body \<Rightarrow> state \<Rightarrow> state" where
  "send code b s = s\<lparr>sent := sent s @ [(code, b)]\<rparr>"

text \<open>\<^verbatim>\<open>EEPROM.put( g_start_eeprom_address, g_data); EEPROM.commit();\<close>\<close>

definition commit :: "state \<Rightarrow> state" where
  "commit s = s\<lparr>eeprom := g_data s\<rparr>"

section \<open>\<^verbatim>\<open>move_motor\<close>\<close>

text \<open>
  The three branches of the source, on the \<^verbatim>\<open>float\<close> sums it computes: the new
  value of \<^verbatim>\<open>no_rotations\<close> and the record with both positions assigned.
\<close>

definition clamp_rotations :: "settings \<Rightarrow> fp \<Rightarrow> fp \<times> settings" where
  "clamp_rotations d no_rotations =
     (if fp_lt (f32_add (position_current d) no_rotations) (position_left d) then
        (f32_sub (position_left d) (position_current d),
         d\<lparr>position_current_previous := position_current d,
           position_current := position_left d\<rparr>)
      else if fp_gt (f32_add (position_current d) no_rotations) (position_right d) then
        (f32_sub (position_right d) (position_current d),
         d\<lparr>position_current_previous := position_current d,
           position_current := position_right d\<rparr>)
      else
        (no_rotations,
         d\<lparr>position_current_previous := position_current d,
           position_current := f32_add (position_current d) no_rotations\<rparr>))"

definition move_motor :: "fp \<Rightarrow> state \<Rightarrow> fp \<times> state" where
  "move_motor no_rotations s =
     (if isRunning (motor s) then
        (Fin 0, println ''Motor still running, ignoring request to move'' s)
      else
        let (no_rotations', d) = clamp_rotations (g_data s) no_rotations;
            s1 = commit (s\<lparr>g_data := d\<rparr>);
            m1 = (if stepper_motor_and_driver d = 0 then enableOutputs (motor s1)
                  else sleep_pin True (motor s1));
            m2 = setCurrentPosition 0 m1;
            m3 = move (f32_to_long (f32_mul no_rotations' (steps_per_revolution d))) m2
        in (no_rotations', s1\<lparr>motor := m3\<rparr>))"

section \<open>Stopping the motor\<close>

text \<open>
  \<^verbatim>\<open>float positions_moved = (g_AccelStepper.currentPosition() /
  (g_data.steps_per_revolution * 1.0));\<close>  The divisor and the quotient are \<^verbatim>\<open>double\<close>s;
  the quotient is rounded to \<^verbatim>\<open>float\<close> by the assignment.
\<close>

definition positions_moved :: "state \<Rightarrow> fp" where
  "positions_moved s =
     f64_to_f32 (f64_div (long_to_f64 (currentPosition (motor s)))
                         (f64_mul (steps_per_revolution (g_data s)) (Fin 1)))"

text \<open>
  The lines that the \<^verbatim>\<open>stop_motor\<close> branch of \<^verbatim>\<open>handle_api\<close> and \<^verbatim>\<open>handle_stop_motor\<close>
  share, from \<^verbatim>\<open>g_AccelStepper.stop()\<close> to \<^verbatim>\<open>g_AccelStepper.setCurrentPosition ( 0 )\<close>.
  \<^verbatim>\<open>fabs(positions_moved) > g_epsilon\<close> compares in \<^verbatim>\<open>double\<close>.
\<close>

definition stop_and_reconcile :: "state \<Rightarrow> state" where
  "stop_and_reconcile s =
     (let s1 = s\<lparr>motor := stop (motor s)\<rparr>;
          moved = positions_moved s1;
          s2 = (if fp_gt (fp_abs moved) g_epsilon then
                  commit (s1\<lparr>g_data := (g_data s1)\<lparr>position_current :=
                     f32_add (position_current_previous (g_data s1)) moved\<rparr>\<rparr>)
                else s1)
      in s2\<lparr>motor := setCurrentPosition 0 (motor s2)\<rparr>)"

text \<open>
  The calibration gate of both \<^verbatim>\<open>move_total\<close> commands:
  \<^verbatim>\<open>fabs (g_data.position_left - DEFAULT_POSITION_LEFT) < g_epsilon\<close>, in \<^verbatim>\<open>double\<close>.
\<close>

definition left_not_set :: "settings \<Rightarrow> bool" where
  "left_not_set d =
     fp_lt (fp_abs (f64_sub (position_left d) DEFAULT_POSITION_LEFT)) g_epsilon"

definition right_not_set :: "settings \<Rightarrow> bool" where
  "right_not_set d =
     fp_lt (fp_abs (f64_sub (position_right d) DEFAULT_POSITION_RIGHT)) g_epsilon"

section \<open>\<^verbatim>\<open>handle_api\<close>\<close>

text \<open>
  A request carries the three arguments \<^verbatim>\<open>action\<close>, \<^verbatim>\<open>value\<close> and \<^verbatim>\<open>api\<close>; an argument
  that is not given reads as the empty string.  \<^verbatim>\<open>String::toFloat\<close> and
  \<^verbatim>\<open>String::toInt\<close> belong to the Arduino core and are parameters.
\<close>

record request =
  action :: string
  value_arg :: string
  api :: string

text \<open>One definition for each branch of the source, in its order.\<close>

definition api_set_api :: "request \<Rightarrow> state \<Rightarrow> state" where
  "api_set_api req s =
     (if action req = ''set_api'' \<and> apikey_set (g_data s) = 0 \<and> api req \<noteq> g_default_api_key then
        let s1 = println ''Handle 'set_api' action'' s
        in if length (api req) > LENGTH_API_KEY then
             send 501 (Fmt ''NOK (API key '%s' is bigger then '%d' characters)''
                         [S (api req), I (int LENGTH_API_KEY)]) s1
           else
             let s2 = commit (s1\<lparr>g_data := (g_data s1)\<lparr>apikey := value_arg req, apikey_set := 1\<rparr>\<rparr>)
             in send 200 (Fmt ''OK (API key set to value '%s')'' [S (apikey (g_data s2))]) s2
      else s)"

definition api_reboot :: "request \<Rightarrow> state \<Rightarrow> state" where
  "api_reboot req s =
     (let s1 = send 200 (Text ''OK'') (println ''Handle 'reboot' action'' s)
      in if value_arg req = ''true'' then (println ''Rebooting ESP8266'' s1)\<lparr>restarted := True\<rparr>
         else s1)"

definition api_reset :: "request \<Rightarrow> state \<Rightarrow> state" where
  "api_reset req s =
     (let s1 = send 200 (Text ''OK'') (println ''Handle 'reset' action'' s)
      in if value_arg req = ''true'' then
           (println ''Clearing EEPROM values of ESP8266'' s1)\<lparr>eeprom := zero_settings, restarted := True\<rparr>
         else s1)"

definition api_set_host :: "request \<Rightarrow> state \<Rightarrow> state" where
  "api_set_host req s =
     (let s1 = println ''Handle 'set_host' action'' s
      in if value_arg req = [] then
           send 501 (Text ''NOK (no hostname supplied for 'set_host' action)'')
             (println ''No hostname supplied for 'set_host' action'' s1)
         else
           send 200 (Fmt ''OK (hostname set to value '%s')'' [S (value_arg req)])
             (commit (s1\<lparr>g_data := (g_data s1)\<lparr>hostname := value_arg req\<rparr>\<rparr>)))"

definition api_set_language :: "(string \<Rightarrow> int) \<Rightarrow> request \<Rightarrow> state \<Rightarrow> state" where
  "api_set_language toInt req s =
     (let s1 = println ''Handle 'set_language' action'' s
      in if value_arg req = [] then
           send 501 (Text ''NOK (no language supplied for 'set_language' action, falling back to English'')
             (commit ((println ''No language supplied for 'set_language' action, falling back to English'' s1)
                \<lparr>g_data := (g_data s1)\<lparr>language := 0\<rparr>\<rparr>))
         else if toInt (value_arg req) < 0 \<or> toInt (value_arg req) > 1 then
           send 501 (Text ''NOK (unknown language supplied for 'set_language' action, falling back to English'')
             (commit ((println ''Unknown language supplied for 'set_language' action, falling back to English'' s1)
                \<lparr>g_data := (g_data s1)\<lparr>language := 0\<rparr>\<rparr>))
         else
           send 200 (Fmt ''OK (language set to value '%d')'' [I (toInt (value_arg req))])
             (commit (s1\<lparr>g_data := (g_data s1)\<lparr>language := toInt (value_arg req)\<rparr>\<rparr>)))"

definition api_reset_left :: "state \<Rightarrow> state" where
  "api_reset_left s =
     send 200 (Text ''OK (treshold 'left' set to default value)'')
       (commit ((println ''Handle 'reset_left' action'' s)
          \<lparr>g_data := (g_data s)\<lparr>position_left := DEFAULT_POSITION_LEFT\<rparr>\<rparr>))"

definition api_reset_current :: "state \<Rightarrow> state" where
  "api_reset_current s =
     send 200 (Text ''OK (current position set to default value'')
       (commit ((println ''Handle 'reset_current' action'' s)
          \<lparr>g_data := (g_data s)\<lparr>position_current_previous := DEFAULT_POSITION_CURRENT_PREVIOUS,
                                position_current := DEFAULT_POSITION_CURRENT\<rparr>\<rparr>))"

definition api_reset_right :: "state \<Rightarrow> state" where
  "api_reset_right s =
     send 200 (Text ''OK (treshold 'right' set to default value)'')
       (commit ((println ''Handle 'reset_right' action'' s)
          \<lparr>g_data := (g_data s)\<lparr>position_right := DEFAULT_POSITION_RIGHT\<rparr>\<rparr>))"

definition api_set_left :: "(string \<Rightarrow> fp) \<Rightarrow> request \<Rightarrow> state \<Rightarrow> state" where
  "api_set_left toFloat req s =
     (let s1 = println ''Handle 'set_left' action'' s;
          position_left' = (if value_arg req \<noteq> [] then toFloat (value_arg req)
                            else position_current (g_data s1))
      in if fp_gt position_left' (position_right (g_data s1)) \<or>
            fp_gt position_left' (position_current (g_data s1)) then
           send 501 (Text ''NOK (treshold 'left' cannot be bigger than treshold 'right' for 'set_motor_left' action)'')
             (println ''Treshold 'left' cannot be bigger than 'current' position or treshold 'right' for 'set_motor_left' action'' s1)
         else
           send 200 (Fmt ''OK (threshold 'left' set to value '%1.2f')'' [F position_left'])
             (commit (s1\<lparr>g_data := (g_data s1)\<lparr>position_left := position_left'\<rparr>\<rparr>)))"

definition api_move_motor :: "(string \<Rightarrow> fp) \<Rightarrow> request \<Rightarrow> state \<Rightarrow> state" where
  "api_move_motor toFloat req s =
     (let s1 = println ''Handle 'motor' action'' s
      in if value_arg req = [] then
           send 501 (Text ''NOK (no value supplied for 'move_motor' action)'')
             (println ''No value supplied for 'move_motor' action'' s1)
         else
           let (actual_performed_rotations, s2) = move_motor (toFloat (value_arg req)) s1
           in send 200 (Fmt ''OK (the 'move_motor' action has performed '%1.2f' rotations)''
                          [F actual_performed_rotations]) s2)"

definition api_set_right :: "(string \<Rightarrow> fp) \<Rightarrow> request \<Rightarrow> state \<Rightarrow> state" where
  "api_set_right toFloat req s =
     (let s1 = println ''Handle 'set_right' action'' s;
          position_right' = (if value_arg req \<noteq> [] then toFloat (value_arg req)
                             else position_current (g_data s1))
      in if fp_lt position_right' (position_left (g_data s1)) \<or>
            fp_lt position_right' (position_current (g_data s1)) then
           send 501 (Text ''NOK (treshold 'right' cannot be smaller than treshold 'left')'')
             (println (''Treshold 'right' cannot be smaller than 'current' position or treshold 'left'' @ [CHR 0x27]) s1)
         else
           send 200 (Fmt ''OK (threshold 'right' set to value '%1.2f')'' [F position_right'])
             (commit (s1\<lparr>g_data := (g_data s1)\<lparr>position_right := position_right'\<rparr>\<rparr>)))"

definition api_move_total_left :: "state \<Rightarrow> state" where
  "api_move_total_left s =
     (let s1 = println ''Handle 'move_total_left' action'' s
      in if left_not_set (g_data s1) then
           send 501 (Text ''NOK ('left' treshold not set yet)'')
             (println ''NOK ('left' treshold not set yet)'' s1)
         else
           send 200 (Text ''OK'') (snd (move_motor DEFAULT_POSITION_LEFT s1)))"

definition api_move_total_right :: "state \<Rightarrow> state" where
  "api_move_total_right s =
     (let s1 = println ''Handle 'move_total_right' action'' s
      in if right_not_set (g_data s1) then
           send 501 (Text ''NOK ('right' treshold not set yet)'')
             (println ''NOK ('right' treshold not set yet)'' s1)
         else
           send 200 (Text ''OK'') (snd (move_motor DEFAULT_POSITION_RIGHT s1)))"

definition api_stop_motor :: "state \<Rightarrow> state" where
  "api_stop_motor s =
     send 200 (Text ''OK'') (stop_and_reconcile (println ''Handle 'stop_motor' action'' s))"

text \<open>
  Both speed settings are handed to the library again, whichever of the two changed.
\<close>

definition apply_speed_settings :: "state \<Rightarrow> state" where
  "apply_speed_settings s =
     s\<lparr>motor := setMaxSpeed (motor_max_speed (g_data s))
                  (setAcceleration (motor_acceleration (g_data s)) (motor s))\<rparr>"

definition api_motor_acceleration :: "(string \<Rightarrow> fp) \<Rightarrow> request \<Rightarrow> state \<Rightarrow> state" where
  "api_motor_acceleration toFloat req s =
     (let s1 = println ''Handle 'motor_acceleration' action'' s;
          s2 = commit (s1\<lparr>g_data := (g_data s1)\<lparr>motor_acceleration := toFloat (value_arg req)\<rparr>\<rparr>)
      in send 200 (Text ''OK'') (apply_speed_settings s2))"

definition api_motor_max_speed :: "(string \<Rightarrow> fp) \<Rightarrow> request \<Rightarrow> state \<Rightarrow> state" where
  "api_motor_max_speed toFloat req s =
     (let s1 = println ''Handle 'motor_max_speed' action'' s;
          s2 = commit (s1\<lparr>g_data := (g_data s1)\<lparr>motor_max_speed := toFloat (value_arg req)\<rparr>\<rparr>)
      in send 200 (Text ''OK'') (apply_speed_settings s2))"

definition api_unknown :: "state \<Rightarrow> state" where
  "api_unknown s = send 501 (Text ''NOK (unknown action supplied)'') (println ''Unknown action'' s)"

text \<open>The chain of \<^verbatim>\<open>else if (action == ...)\<close> under a valid API key.\<close>

definition api_dispatch :: "(string \<Rightarrow> fp) \<Rightarrow> (string \<Rightarrow> int) \<Rightarrow> request \<Rightarrow> state \<Rightarrow> state" where
  "api_dispatch toFloat toInt req s =
     (if action req = ''reboot'' then api_reboot req s
      else if action req = ''reset'' then api_reset req s
      else if action req = ''set_host'' then api_set_host req s
      else if action req = ''set_language'' then api_set_language toInt req s
      else if action req = ''reset_left'' then api_reset_left s
      else if action req = ''reset_current'' then api_reset_current s
      else if action req = ''reset_right'' then api_reset_right s
      else if action req = ''set_left'' then api_set_left toFloat req s
      else if action req = ''move_motor'' then api_move_motor toFloat req s
      else if action req = ''set_right'' then api_set_right toFloat req s
      else if action req = ''move_total_left'' then api_move_total_left s
      else if action req = ''move_total_right'' then api_move_total_right s
      else if action req = ''stop_motor'' then api_stop_motor s
      else if action req = ''motor_acceleration'' then api_motor_acceleration toFloat req s
      else if action req = ''motor_max_speed'' then api_motor_max_speed toFloat req s
      else api_unknown s)"

definition handle_api :: "(string \<Rightarrow> fp) \<Rightarrow> (string \<Rightarrow> int) \<Rightarrow> request \<Rightarrow> state \<Rightarrow> state" where
  "handle_api toFloat toInt req s =
     (let s1 = api_set_api req s
      in if api req \<noteq> apikey (g_data s1) then
           send 501 (Fmt ''NOK (you are not authorized to perform an action without a valid API key, provided api-key '%s')''
                       [S (api req)]) s1
         else api_dispatch toFloat toInt req s1)"

section \<open>The buttons of the web interface\<close>

text \<open>
  The handlers \<^verbatim>\<open>handle_root\<close> calls for a pressed button; each answers with the
  page.  Who may press a button (the login cookie) is outside the model.
\<close>

definition handle_reset_left :: "state \<Rightarrow> state" where
  "handle_reset_left s =
     send 200 Page
       (commit ((println ''[Reset Left] pressed'' s)
          \<lparr>g_data := (g_data s)\<lparr>position_left := DEFAULT_POSITION_LEFT\<rparr>\<rparr>))"

definition handle_reset_current :: "state \<Rightarrow> state" where
  "handle_reset_current s =
     send 200 Page
       (commit ((println ''[Reset Current] pressed'' s)
          \<lparr>g_data := (g_data s)\<lparr>position_current_previous := DEFAULT_POSITION_CURRENT_PREVIOUS,
                                position_current := DEFAULT_POSITION_CURRENT\<rparr>\<rparr>))"

definition handle_reset_right :: "state \<Rightarrow> state" where
  "handle_reset_right s =
     send 200 Page
       (commit ((println ''[Reset Right] pressed'' s)
          \<lparr>g_data := (g_data s)\<lparr>position_right := DEFAULT_POSITION_RIGHT\<rparr>\<rparr>))"

definition handle_move_left :: "fp \<Rightarrow> state \<Rightarrow> state" where
  "handle_move_left rotations s = send 200 Page (snd (move_motor rotations s))"

definition handle_move_right :: "fp \<Rightarrow> state \<Rightarrow> state" where
  "handle_move_right rotations s = send 200 Page (snd (move_motor rotations s))"

definition handle_set_left :: "state \<Rightarrow> state" where
  "handle_set_left s =
     send 200 Page
       (commit ((println ''[Set Left] pressed'' s)
          \<lparr>g_data := (g_data s)\<lparr>position_left := position_current (g_data s)\<rparr>\<rparr>))"

definition handle_set_right :: "state \<Rightarrow> state" where
  "handle_set_right s =
     send 200 Page
       (commit ((println ''[Set Right] pressed'' s)
          \<lparr>g_data := (g_data s)\<lparr>position_right := position_current (g_data s)\<rparr>\<rparr>))"

definition handle_move_total_left :: "state \<Rightarrow> state" where
  "handle_move_total_left s =
     (let s1 = println ''[Move Total Left] pressed'' s
      in if left_not_set (g_data s1) then
           send 501 Page (println '''left' treshold not set, thus not moving motor'' s1)
         else
           send 200 Page (snd (move_motor DEFAULT_POSITION_LEFT s1)))"

definition handle_move_total_right :: "state \<Rightarrow> state" where
  "handle_move_total_right s =
     (let s1 = println ''[Move Total Right] pressed'' s
      in if right_not_set (g_data s1) then
           send 501 Page (println '''right' treshold not set, thus not moving motor'' s1)
         else
           send 200 Page (snd (move_motor DEFAULT_POSITION_RIGHT s1)))"

definition handle_stop_motor :: "state \<Rightarrow> state" where
  "handle_stop_motor s =
     send 200 Page (stop_and_reconcile (println ''[Stop Motor] pressed'' s))"

section \<open>\<^verbatim>\<open>loop\<close>\<close>

text \<open>
  One pass of \<^verbatim>\<open>loop()\<close>.  \<open>handleClient\<close> is what \<^verbatim>\<open>server.handleClient()\<close> does in this
  pass (a handler run on a pending request, or nothing), \<open>run\<close> what \<^verbatim>\<open>g_AccelStepper.run()\<close>
  does to the motor, \<open>wifi_lost\<close> the test \<^verbatim>\<open>g_wifi_mode == 1 && WiFi.status() !=
  WL_CONNECTED\<close>, and \<open>reconnected\<close> whether \<^verbatim>\<open>wifi_reconnect\<close> finds the network again.
\<close>

definition wifi_reconnect :: "(stepper \<Rightarrow> stepper) \<Rightarrow> bool \<Rightarrow> state \<Rightarrow> state" where
  "wifi_reconnect run reconnected s =
     (let s1 = s\<lparr>motor := run (motor s)\<rparr>;
          s2 = println ''Starting WiFi again'' (println ''WiFi disconnected'' s1)
      in if reconnected then println [] s2 else s2)"

definition loop ::
  "(state \<Rightarrow> state) \<Rightarrow> (stepper \<Rightarrow> stepper) \<Rightarrow> bool \<Rightarrow> bool \<Rightarrow> state \<Rightarrow> state" where
  "loop handleClient run wifi_lost reconnected s =
     (let s1 = handleClient s;
          s2 = s1\<lparr>motor := run (motor s1)\<rparr>;
          s3 = (if \<not> isRunning (motor s2) then
                  (if stepper_motor_and_driver (g_data s2) = 0 then
                     s2\<lparr>motor := disableOutputs (motor s2)\<rparr>
                   else s2\<lparr>motor := sleep_pin False (motor s2)\<rparr>)
                else s2)
      in if wifi_lost then wifi_reconnect run reconnected s3 else s3)"

section \<open>States that differ in the step counter only\<close>

text \<open>
  Two states that agree on the record, the EEPROM, the serial lines, the answers sent,
  the restart flag, on whether the motor runs and on the calls made on the motor; the
  step counter \<^verbatim>\<open>currentPosition()\<close> is the one thing in which they may differ.
\<close>

definition same_but_counter :: "state \<Rightarrow> state \<Rightarrow> bool" where
  "same_but_counter s t =
     (g_data s = g_data t \<and> eeprom s = eeprom t \<and> serial s = serial t \<and> sent s = sent t \<and>
      restarted s = restarted t \<and> isRunning (motor s) = isRunning (motor t) \<and>
      calls (motor s) = calls (motor t))"

section \<open>The ordering of the position record\<close>

text \<open>\<^verbatim>\<open>left <= current\<close>, \<^verbatim>\<open>current <= right\<close> and \<^verbatim>\<open>left <= right\<close>, as C compares them.\<close>

definition ordered :: "settings \<Rightarrow> bool" where
  "ordered d =
     (fp_le (position_left d) (position_current d) \<and>
      fp_le (position_current d) (position_right d) \<and>
      fp_le (position_left d) (position_right d))"

text \<open>
  The structure with the default values \<^verbatim>\<open>setup()\<close> writes (first start, or another
  major version in the EEPROM) and the 28BYJ-48 motor chosen on the settings page.
  \<^verbatim>\<open>setup()\<close> itself assigns neither \<^verbatim>\<open>steps_per_revolution\<close> nor
  \<^verbatim>\<open>stepper_motor_and_driver\<close>: they hold what \<^verbatim>\<open>EEPROM.get\<close> read, until
  \<^verbatim>\<open>handle_settings_ajax\<close> stores \<^verbatim>\<open>STEPS_PER_REVOLUTION_28BYJ\<close> and \<open>0\<close>, or
  \<^verbatim>\<open>STEPS_PER_REVOLUTION_NEMA17\<close> and \<open>1\<close>.  So this is the record after the
  settings page was saved with the default values; it is used as input data only.
  \<open>state_of\<close> is a state around a structure.
\<close>

definition default_settings :: settings where
  "default_settings =
     \<lparr>ssid = [], password = [], version = float_lit (107 / 100), hostname = ''eCurtains'',
      apikey = g_default_api_key, apikey_set = 0, position_left = DEFAULT_POSITION_LEFT,
      position_current_previous = DEFAULT_POSITION_CURRENT_PREVIOUS,
      position_current = DEFAULT_POSITION_CURRENT, position_right = DEFAULT_POSITION_RIGHT,
      language = 1, web_user = ''admin'', web_password = ''notdodo'',
      motor_acceleration = Fin 100, motor_max_speed = Fin 250,
      steps_per_revolution = Fin 2048, stepper_motor_and_driver = 0\<rparr>"

definition positions :: "fp \<Rightarrow> fp \<Rightarrow> fp \<Rightarrow> fp \<Rightarrow> settings" where
  "positions l p c r =
     default_settings\<lparr>position_left := l, position_current_previous := p,
                      position_current := c, position_right := r\<rparr>"

definition idle_motor :: stepper where
  "idle_motor = \<lparr>isRunning = False, currentPosition = 0, calls = []\<rparr>"

definition state_of :: "settings \<Rightarrow> stepper \<Rightarrow> state" where
  "state_of d m =
     \<lparr>g_data = d, eeprom = d, motor = m, serial = [], sent = [], restarted = False\<rparr>"

section \<open>Inputs used below\<close>

text \<open>
  The button \<^verbatim>\<open>right0.1\<close> calls \<^verbatim>\<open>handle_move_right(0.1)\<close>.  \<open>third_press\<close> is the state
  before its third press, counted from the default record: two moves of \<^verbatim>\<open>0.1f\<close> are
  done and the motor is idle again.
\<close>

definition third_press :: state where
  "third_press =
     state_of (positions (Fin (- 100)) (float_lit (1 / 10))
                 (f32_add (float_lit (1 / 10)) (float_lit (1 / 10))) (Fin 100)) idle_motor"

text \<open>
  The record of the end-to-end scenario of the specification after its move by 50
  (\<^verbatim>\<open>left = 0\<close>, \<^verbatim>\<open>current = 50\<close>, \<^verbatim>\<open>right = 100\<close>), the motor idle.
\<close>

definition at_fifty :: state where
  "at_fifty = state_of (positions (Fin 0) (Fin 0) (Fin 50) (Fin 100)) idle_motor"

text \<open>A motor in the middle of a move, and the default record around it.\<close>

definition running_motor :: stepper where
  "running_motor = \<lparr>isRunning = True, currentPosition = 512, calls = []\<rparr>"

definition busy_state :: state where
  "busy_state = state_of default_settings running_motor"

text \<open>
  The Nema17 motor (200 steps per revolution) stopped in the middle of a move from
  position 10 to position 40, after 150 steps.
\<close>

definition stopped_early :: state where
  "stopped_early =
     state_of ((positions (Fin 0) (Fin 10) (Fin 40) (Fin 100))
                 \<lparr>steps_per_revolution := Fin 200, stepper_motor_and_driver := 1\<rparr>)
       \<lparr>isRunning = True, currentPosition = 150, calls = []\<rparr>"

text \<open>
  A step counter left over from a finished move of 50 revolutions: after it
  \<^verbatim>\<open>reset_current\<close> put both positions to 0 and \<^verbatim>\<open>set_right\<close> with value 10 moved the right
  threshold; the motor is idle.
\<close>

definition stale_counter :: state where
  "stale_counter =
     state_of (positions (Fin (- 100)) (Fin 0) (Fin 0) (Fin 10))
       \<lparr>isRunning = False, currentPosition = 102400, calls = []\<rparr>"

text \<open>
  A range of 140 revolutions, calibrated from \<open>-50\<close> to \<open>90\<close>, with the curtain at its
  right end.
\<close>

definition wide_range :: state where
  "wide_range = state_of (positions (Fin (- 50)) (Fin 0) (Fin 90) (Fin 90)) idle_motor"

text \<open>The left threshold calibrated at the current position 10.\<close>

definition left_at_ten :: state where
  "left_at_ten = state_of (positions (Fin 10) (Fin 0) (Fin 10) (Fin 100)) idle_motor"

text \<open>
  The default state, and what \<^verbatim>\<open>toFloat\<close> and \<^verbatim>\<open>toInt\<close> read from a string that holds no
  number.
\<close>

definition default_state :: state where
  "default_state = state_of default_settings idle_motor"

definition toFloat0 :: "string \<Rightarrow> fp" where
  "toFloat0 v = Fin 0"

definition toInt0 :: "string \<Rightarrow> int" where
  "toInt0 v = 0"

text \<open>An authorised call of the API with no value.\<close>

definition api_call :: "string \<Rightarrow> state \<Rightarrow> state" where
  "api_call a s =
     handle_api toFloat0 toInt0 \<lparr>action = a, value_arg = [], api = apikey (g_data s)\<rparr> s"

text \<open>
  A move of \<^verbatim>\<open>3/4096\<close> of a revolution from the default state, one and a half steps of
  which the motor is given one, and the \<^verbatim>\<open>run()\<close> that makes this step and finds the
  target reached.
\<close>

definition short_move :: state where
  "short_move = snd (move_motor (Fin (3 / 4096)) default_state)"

definition last_step :: "stepper \<Rightarrow> stepper" where
  "last_step m = m\<lparr>isRunning := False, currentPosition := currentPosition m + 1\<rparr>"

text \<open>
  The record of \<open>stale_counter\<close> with a step counter of zero, and a \<^verbatim>\<open>toFloat\<close> that
  reads the string \<^verbatim>\<open>5\<close> (and 0 from any other string).
\<close>

definition fresh_counter :: state where
  "fresh_counter = state_of (positions (Fin (- 100)) (Fin 0) (Fin 0) (Fin 10)) idle_motor"

definition toFloat_five :: "string \<Rightarrow> fp" where
  "toFloat_five v = (if v = ''5'' then Fin 5 else Fin 0)"

text \<open>
  The Nema17 motor idle at the end of a move from position 0 to position 5 (1000
  steps), in a range calibrated from \<open>-20\<close> to \<open>10\<close>.
\<close>

definition after_five :: state where
  "after_five =
     state_of ((positions (Fin (- 20)) (Fin 0) (Fin 5) (Fin 10))
                 \<lparr>steps_per_revolution := Fin 200, stepper_motor_and_driver := 1\<rparr>)
       \<lparr>isRunning = False, currentPosition = 1000, calls = []\<rparr>"

section \<open>Floating point: evaluation and order\<close>

lemma bitlen_numeral: "bitlen (numeral n) = bitlen (numeral n div 2) + 1"
  by (subst compute_bitlen) simp

lemma bitlen_one: "bitlen 1 = 1"
  by (subst compute_bitlen) simp

lemmas fp_eval = fp_round_def quantum_def ilog2_def bitlen_numeral bitlen_one round_even_def Let_def
  signed_inf_def signed_zero_def fp_add_def fp_sub_def fp_mul_def fp_div_def f32_add_def
  f32_sub_def f32_mul_def f64_sub_def f64_mul_def f64_div_def long_to_f64_def f32_to_long_def
  fp_lt_def fp_gt_def fp_le_def

lemma fp_le_not_nan: "fp_le a b \<Longrightarrow> \<not> is_nan a \<and> \<not> is_nan b"
  by (simp add: fp_le_def)

lemma fp_le_refl: "\<not> is_nan a \<Longrightarrow> fp_le a a"
  by (simp add: fp_le_def)

lemma fp_le_trans: "fp_le a b \<Longrightarrow> fp_le b c \<Longrightarrow> fp_le a c"
  by (auto simp: fp_le_def)

lemma not_fp_lt_le: "\<not> fp_lt a b \<Longrightarrow> \<not> is_nan a \<Longrightarrow> \<not> is_nan b \<Longrightarrow> fp_le b a"
  by (auto simp: fp_le_def fp_lt_def)

lemma not_fp_gt_le: "\<not> fp_gt a b \<Longrightarrow> \<not> is_nan a \<Longrightarrow> \<not> is_nan b \<Longrightarrow> fp_le a b"
  by (auto simp: fp_le_def fp_lt_def fp_gt_def)

lemma float_lit_tenth: "float_lit (1 / 10) = Fin (13421773 / 2 ^ 27)"
  by (simp add: float_lit_def fp_eval)

lemma g_epsilon_val: "g_epsilon = Fin (5902958103587057 / 2 ^ 69)"
  by (simp add: g_epsilon_def fp_eval)

section \<open>Floating point: the rounding is to a nearest number of the format\<close>

lemma round_even_int: "round_even (of_int n) = n"
  by (simp add: round_even_def Let_def)

lemma round_even_near: "\<bar>of_int (round_even y) - y\<bar> \<le> 1 / 2"
  by (auto simp: round_even_def Let_def; linarith)

lemma powi_nat: "0 \<le> k \<Longrightarrow> (2::real) powi k = 2 ^ nat k"
  by (simp add: power_int_def)

lemma powi_neg: "0 \<le> k \<Longrightarrow> (2::real) powi (- k) = 1 / 2 ^ nat k"
  by (simp add: power_int_minus powi_nat field_simps)

lemma ilog2_ge1:
  assumes "1 \<le> x"
  shows "2 powi (ilog2 x) \<le> x \<and> x < 2 powi (ilog2 x + 1)"
proof -
  define n where "n = \<lfloor>x\<rfloor>"
  define b where "b = bitlen n"
  have n: "0 < n" using assms by (simp add: n_def)
  have b: "1 \<le> b" using n by (simp add: bitlen_alt_def b_def)
  from bitlen_bounds [OF n]
  have lo: "2 ^ nat (b - 1) \<le> n" and hi: "n < 2 ^ nat b" by (auto simp: b_def)
  have "(of_int (2 ^ nat (b - 1)) :: real) \<le> of_int n" using lo by (simp only: of_int_le_iff)
  then have "(2::real) ^ nat (b - 1) \<le> of_int n" by simp
  moreover have "of_int n \<le> x" by (simp add: n_def)
  ultimately have 1: "(2::real) ^ nat (b - 1) \<le> x" by linarith
  have "n + 1 \<le> 2 ^ nat b" using hi by simp
  then have "(of_int (n + 1) :: real) \<le> of_int (2 ^ nat b)" by (simp only: of_int_le_iff)
  then have "of_int n + 1 \<le> (2::real) ^ nat b" by simp
  moreover have "x < of_int n + 1" unfolding n_def by linarith
  ultimately have 2: "x < (2::real) ^ nat b" by linarith
  have il: "ilog2 x = b - 1" using assms by (simp add: ilog2_def b_def n_def)
  have p1: "(2::real) powi (b - 1) = 2 ^ nat (b - 1)" using b by (simp add: powi_nat)
  have p2: "(2::real) powi (b - 1 + 1) = 2 ^ nat b" using b by (simp add: powi_nat)
  show ?thesis unfolding il p1 p2 using 1 2 by blast
qed

lemma ilog2_lt1:
  assumes "0 < x" "x < 1"
  shows "2 powi (ilog2 x) \<le> x \<and> x < 2 powi (ilog2 x + 1)"
proof -
  define y where "y = 1 / x"
  define m where "m = \<lceil>y\<rceil>"
  define b where "b = bitlen (m - 1)"
  have y: "1 < y" using assms by (simp add: y_def)
  have m: "0 < m - 1" using y unfolding m_def by linarith
  have b: "1 \<le> b" using m by (simp add: bitlen_alt_def b_def)
  from bitlen_bounds [OF m]
  have lo: "2 ^ nat (b - 1) \<le> m - 1" and hi: "m - 1 < 2 ^ nat b" by (auto simp: b_def)
  have "m \<le> 2 ^ nat b" using hi by simp
  then have "of_int m \<le> (of_int (2 ^ nat b) :: real)" by (simp only: of_int_le_iff)
  then have "of_int m \<le> (2::real) ^ nat b" by simp
  moreover have "y \<le> of_int m" unfolding m_def by linarith
  ultimately have 1: "y \<le> 2 ^ nat b" by linarith
  have "(of_int (2 ^ nat (b - 1)) :: real) \<le> of_int (m - 1)"
    using lo by (simp only: of_int_le_iff)
  then have "(2::real) ^ nat (b - 1) \<le> of_int m - 1" by simp
  moreover have "of_int m - 1 < y" unfolding m_def by linarith
  ultimately have 2: "2 ^ nat (b - 1) < y" by linarith
  have xy: "x = 1 / y" using assms by (simp add: y_def)
  have y0: "0 < y" using y by linarith
  have A: "1 / 2 ^ nat b \<le> x"
    unfolding xy using 1 y0 by (simp add: frac_le)
  have B: "x < 1 / 2 ^ nat (b - 1)"
    unfolding xy using 2 y0 by (simp add: frac_less2)
  have il: "ilog2 x = - b" using assms by (simp add: ilog2_def b_def m_def y_def)
  have e1: "(2::real) powi (- b) = 1 / 2 ^ nat b" using b by (simp add: powi_neg)
  have "(2::real) powi (- b + 1) = 2 powi (- (b - 1))" by simp
  also have "\<dots> = 1 / 2 ^ nat (b - 1)" using b by (simp only: powi_neg)
  finally have e2: "(2::real) powi (- b + 1) = 1 / 2 ^ nat (b - 1)" .
  show ?thesis unfolding il e1 e2 using A B by blast
qed

text \<open>\<open>ilog2\<close> is the binary exponent of a positive number.\<close>

lemma ilog2_bounds:
  "0 < x \<Longrightarrow> 2 powi (ilog2 x) \<le> x \<and> x < 2 powi (ilog2 x + 1)"
  using ilog2_ge1 [of x] ilog2_lt1 [of x] by (cases "1 \<le> x") auto

lemma ilog2_unique:
  assumes "2 powi k \<le> x" "x < 2 powi (k + 1)"
  shows "ilog2 x = k"
proof -
  have "(0::real) < 2 powi k" by simp
  then have x: "0 < x" using assms(1) by linarith
  from ilog2_bounds [OF x]
  have lo: "2 powi (ilog2 x) \<le> x" and hi: "x < 2 powi (ilog2 x + 1)" by auto
  have "\<not> ilog2 x < k"
  proof
    assume "ilog2 x < k"
    then have "ilog2 x + 1 \<le> k" by simp
    then have "(2::real) powi (ilog2 x + 1) \<le> 2 powi k" by (simp add: power_int_increasing)
    then show False using hi assms(1) by linarith
  qed
  moreover have "\<not> k < ilog2 x"
  proof
    assume "k < ilog2 x"
    then have "k + 1 \<le> ilog2 x" by simp
    then have "(2::real) powi (k + 1) \<le> 2 powi (ilog2 x)" by (simp add: power_int_increasing)
    then show False using lo assms(2) by linarith
  qed
  ultimately show ?thesis by linarith
qed

lemma quantum_pos: "0 < quantum p emax x"
  by (simp add: quantum_def)

text \<open>A finite result is within half a spacing of the number rounded.\<close>

lemma fp_round_value:
  assumes "is_finite (fp_round p emax x)"
  shows "fp_val (fp_round p emax x) =
           of_int (round_even (x / quantum p emax x)) * quantum p emax x"
  using assms round_even_int [of 0]
  by (auto simp: fp_round_def Let_def signed_inf_def signed_zero_def split: if_splits)

lemma grid_near:
  assumes "0 < u"
  shows "\<bar>of_int (round_even (x / u)) * u - x\<bar> \<le> u / 2"
proof -
  define n where "n = round_even (x / u)"
  have near: "\<bar>of_int n - x / u\<bar> \<le> 1 / 2" unfolding n_def by (rule round_even_near)
  have "of_int n * u - x = (of_int n - x / u) * u"
    using assms by (simp add: left_diff_distrib)
  then have "\<bar>of_int n * u - x\<bar> = \<bar>of_int n - x / u\<bar> * u"
    using assms by (simp add: abs_mult)
  also have "\<dots> \<le> 1 / 2 * u" using near assms by (simp add: mult_right_mono)
  finally show ?thesis by (simp add: n_def)
qed

lemma fp_round_error:
  assumes "is_finite (fp_round p emax x)"
  shows "\<bar>fp_val (fp_round p emax x) - x\<bar> \<le> quantum p emax x / 2"
  unfolding fp_round_value [OF assms] by (rule grid_near [OF quantum_pos])

lemma fp_add_error:
  assumes "is_finite a" "is_finite b" "is_finite (fp_add p emax a b)"
  shows "\<bar>fp_val (fp_add p emax a b) - (fp_val a + fp_val b)\<bar>
           \<le> quantum p emax (fp_val a + fp_val b) / 2"
proof (cases "a = NegZero \<and> b = NegZero")
  case True
  then show ?thesis using quantum_pos [of p emax 0] by (simp add: fp_add_def)
next
  case False
  have "fp_add p emax a b = fp_round p emax (fp_val a + fp_val b)"
    using assms(1,2) False by (cases a; cases b) (simp_all add: fp_add_def)
  then show ?thesis using assms(3) fp_round_error by simp
qed

lemma fp_neg_finite: "is_finite (fp_neg b) = is_finite b" "fp_val (fp_neg b) = - fp_val b"
  by (cases b; simp)+

lemma fp_sub_error:
  assumes "is_finite a" "is_finite b" "is_finite (fp_sub p emax a b)"
  shows "\<bar>fp_val (fp_sub p emax a b) - (fp_val a - fp_val b)\<bar>
           \<le> quantum p emax (fp_val a - fp_val b) / 2"
  using fp_add_error [of a "fp_neg b" p emax] assms
  by (simp add: fp_sub_def fp_neg_finite)

lemma f32_add_error:
  "is_finite a \<Longrightarrow> is_finite b \<Longrightarrow> is_finite (f32_add a b) \<Longrightarrow>
   \<bar>fp_val (f32_add a b) - (fp_val a + fp_val b)\<bar> \<le> f32_half_ulp (fp_val a + fp_val b)"
  unfolding f32_add_def f32_half_ulp_def by (rule fp_add_error)

lemma f32_sub_error:
  "is_finite a \<Longrightarrow> is_finite b \<Longrightarrow> is_finite (f32_sub a b) \<Longrightarrow>
   \<bar>fp_val (f32_sub a b) - (fp_val a - fp_val b)\<bar> \<le> f32_half_ulp (fp_val a - fp_val b)"
  unfolding f32_sub_def f32_half_ulp_def by (rule fp_sub_error)

lemma f32_grid:
  assumes "is_f32 x"
  shows "\<exists>n::int. x = of_int n * quantum 24 127 x"
proof -
  have "is_finite (fp_round 24 127 x)" using assms by (simp add: is_f32_def)
  from fp_round_value [OF this] show ?thesis using assms by (auto simp: is_f32_def)
qed

text \<open>A number of the format, below the overflow threshold, is not changed.\<close>

lemma fp_round_exact:
  assumes "x = of_int k * quantum p emax x" and "\<bar>x\<bar> < 2 powi (emax + 1)"
  shows "fp_round p emax x = Fin x"
proof (cases "x = 0")
  case True
  then show ?thesis by (simp add: fp_round_def)
next
  case False
  define u where "u = quantum p emax x"
  have u: "0 < u" by (simp add: u_def quantum_pos)
  have "x / u = of_int k" using assms(1) u by (simp add: u_def [symmetric])
  then have "of_int (round_even (x / u)) * u = x"
    using assms(1) by (simp add: round_even_int u_def [symmetric])
  then show ?thesis
    using False assms(2) by (simp add: fp_round_def u_def [symmetric] Let_def)
qed

text \<open>
  Relative to the number rounded: one part in \<open>2 ^ p\<close>, or half the spacing of the
  subnormal numbers.
\<close>

lemma quantum_le:
  assumes "x \<noteq> 0"
  shows "quantum p emax x \<le> \<bar>x\<bar> * 2 powi (1 - int p) + 2 powi (2 - emax - int p)"
proof -
  define e where "e = ilog2 \<bar>x\<bar>"
  have x: "0 < \<bar>x\<bar>" using assms by simp
  have lo: "2 powi e \<le> \<bar>x\<bar>" using ilog2_bounds [OF x] by (simp add: e_def)
  have q: "quantum p emax x = 2 powi (max (1 - emax) e - (int p - 1))"
    by (simp add: quantum_def e_def)
  show ?thesis
  proof (cases "1 - emax \<le> e")
    case True
    have "quantum p emax x = 2 powi (e + (1 - int p))"
      using True by (simp add: q max_def algebra_simps)
    also have "\<dots> = 2 powi e * 2 powi (1 - int p)"
      by (simp add: power_int_add)
    also have "\<dots> \<le> \<bar>x\<bar> * 2 powi (1 - int p)"
      using lo by (simp add: mult_right_mono)
    also have "\<dots> \<le> \<bar>x\<bar> * 2 powi (1 - int p) + 2 powi (2 - emax - int p)"
      by simp
    finally show ?thesis .
  next
    case False
    have "quantum p emax x = 2 powi (2 - emax - int p)"
      using False by (simp add: q max_def algebra_simps)
    moreover have "0 \<le> \<bar>x\<bar> * 2 powi (1 - int p)" by simp
    ultimately show ?thesis by linarith
  qed
qed

lemma fp_round_rel_error:
  assumes "is_finite (fp_round p emax x)"
  shows "\<bar>fp_val (fp_round p emax x) - x\<bar>
           \<le> (\<bar>x\<bar> * 2 powi (1 - int p) + 2 powi (2 - emax - int p)) / 2"
proof (cases "x = 0")
  case True
  then show ?thesis by (simp add: fp_round_def)
next
  case False
  have "quantum p emax x / 2
          \<le> (\<bar>x\<bar> * 2 powi (1 - int p) + 2 powi (2 - emax - int p)) / 2"
    using quantum_le [OF False, of p emax] by (rule divide_right_mono) simp
  then show ?thesis
    using fp_round_error [OF assms] by (rule order_trans [rotated])
qed

lemma f64_to_f32_error:
  assumes "is_finite (f64_to_f32 (fp_round 53 1023 x))"
  shows "\<bar>fp_val (f64_to_f32 (fp_round 53 1023 x)) - x\<bar> \<le> \<bar>x\<bar> / 2 ^ 23 + 1 / 2 ^ 149"
proof -
  define a :: real where "a = 2 powi (- 23) / 2"
  define b :: real where "b = 2 powi (- 149) / 2"
  define c :: real where "c = 2 powi (- 52) / 2"
  define d :: real where "d = 2 powi (- 1074) / 2"
  define q where "q = fp_round 53 1023 x"
  have a: "0 \<le> a" "a \<le> 1" and b: "0 \<le> b" and c: "0 \<le> c" and d: "0 \<le> d"
    by (simp_all add: a_def b_def c_def d_def power_int_minus)
  have "(2::real) powi (- 52) \<le> 2 powi (- 24)" by (rule power_int_increasing) simp_all
  then have ca: "2 * c \<le> a" by (simp add: a_def c_def power_int_minus)
  have "(2::real) powi (- 1074) \<le> 2 powi (- 150)" by (rule power_int_increasing) simp_all
  moreover have "(2::real) powi (- 150) = 2 powi (- 149) / 2" by (simp add: power_int_minus)
  ultimately have db: "2 * d \<le> b" by (simp add: b_def d_def)
  have fin: "is_finite q"
    using assms unfolding q_def [symmetric] by (cases q) simp_all
  have e1: "\<bar>fp_val q - x\<bar> \<le> c * \<bar>x\<bar> + d"
    using fp_round_rel_error [of 53 1023 x] fin
    by (simp add: q_def c_def d_def algebra_simps)
  have e2: "\<bar>fp_val (f64_to_f32 q) - fp_val q\<bar> \<le> a * \<bar>fp_val q\<bar> + b"
  proof (cases q)
    case (Fin y)
    then have "is_finite (fp_round 24 127 y)" using assms by (simp add: q_def [symmetric])
    from fp_round_rel_error [OF this] show ?thesis
      using Fin by (simp add: a_def b_def algebra_simps)
  qed (use a b in simp_all)
  have y: "\<bar>fp_val q\<bar> \<le> \<bar>x\<bar> + c * \<bar>x\<bar> + d" using e1 by linarith
  have "a * \<bar>fp_val q\<bar> \<le> a * (\<bar>x\<bar> + c * \<bar>x\<bar> + d)"
    using y a(1) by (rule mult_left_mono)
  also have "\<dots> = a * \<bar>x\<bar> + a * (c * \<bar>x\<bar>) + a * d" by (simp add: algebra_simps)
  also have "\<dots> \<le> a * \<bar>x\<bar> + c * \<bar>x\<bar> + d"
  proof -
    have "a * (c * \<bar>x\<bar>) \<le> 1 * (c * \<bar>x\<bar>)" using a c by (intro mult_right_mono) simp_all
    moreover have "a * d \<le> 1 * d" using a d by (intro mult_right_mono) simp_all
    ultimately show ?thesis by linarith
  qed
  finally have e3: "a * \<bar>fp_val q\<bar> \<le> a * \<bar>x\<bar> + c * \<bar>x\<bar> + d" .
  have "2 * c * \<bar>x\<bar> \<le> a * \<bar>x\<bar>" using ca by (intro mult_right_mono) simp_all
  then have "\<bar>fp_val (f64_to_f32 q) - x\<bar> \<le> 2 * a * \<bar>x\<bar> + 2 * b"
    using e1 e2 e3 db by linarith
  moreover have "2 * a = 1 / 2 ^ 23" "2 * b = 1 / 2 ^ 149"
    using powi_neg [of 23] powi_neg [of 149] by (simp_all add: a_def b_def)
  ultimately show ?thesis by (simp add: q_def)
qed

text \<open>
  The conversions the stop handlers make are exact: a \<^verbatim>\<open>long\<close> is a \<^verbatim>\<open>double\<close>, and a
  \<^verbatim>\<open>float\<close> is a \<^verbatim>\<open>double\<close>.
\<close>

lemma int_exact:
  assumes "\<bar>n\<bar> < 2 ^ 53"
  shows "fp_round 53 1023 (of_int n) = Fin (of_int n)"
proof (cases "n = 0")
  case True
  then show ?thesis by (simp add: fp_round_def)
next
  case False
  define x :: real where "x = of_int n"
  define e where "e = ilog2 \<bar>x\<bar>"
  have x1: "1 \<le> \<bar>x\<bar>"
  proof -
    have "1 \<le> \<bar>n\<bar>" using False by simp
    then have "(of_int 1 :: real) \<le> of_int \<bar>n\<bar>" by (simp only: of_int_le_iff)
    then show ?thesis by (simp add: x_def)
  qed
  have x2: "\<bar>x\<bar> < 2 ^ 53"
  proof -
    have "(of_int \<bar>n\<bar> :: real) < of_int (2 ^ 53)" using assms by (simp only: of_int_less_iff)
    then show ?thesis by (simp add: x_def)
  qed
  have pos: "0 < \<bar>x\<bar>" using x1 by linarith
  from ilog2_bounds [OF pos]
  have lo: "2 powi e \<le> \<bar>x\<bar>" and hi: "\<bar>x\<bar> < 2 powi (e + 1)" by (auto simp: e_def)
  have e0: "0 \<le> e"
  proof (rule ccontr)
    assume "\<not> 0 \<le> e"
    then have "e + 1 \<le> 0" by simp
    then have "(2::real) powi (e + 1) \<le> 2 powi 0" by (rule power_int_increasing) simp
    then show False using hi x1 by simp
  qed
  have e52: "e \<le> 52"
  proof (rule ccontr)
    assume "\<not> e \<le> 52"
    then have "53 \<le> e" by simp
    then have "(2::real) powi 53 \<le> 2 powi e" by (rule power_int_increasing) simp
    moreover have "(2::real) powi 53 = 2 ^ 53" using powi_nat [of 53] by simp
    ultimately show False using lo x2 by linarith
  qed
  have q: "quantum 53 1023 x = 1 / 2 ^ nat (52 - e)"
  proof -
    have "quantum 53 1023 x = 2 powi (- (52 - e))"
      using e0 by (simp add: quantum_def e_def max_def)
    also have "\<dots> = 1 / 2 ^ nat (52 - e)" using e52 by (simp only: powi_neg)
    finally show ?thesis .
  qed
  have grid: "x = of_int (n * 2 ^ nat (52 - e)) * quantum 53 1023 x"
    unfolding q by (simp add: x_def)
  have "(2::real) ^ 53 \<le> 2 powi (1023 + 1)"
    using power_int_increasing [of 53 1024 "2::real"] powi_nat [of 53] by simp
  then have "\<bar>x\<bar> < 2 powi (1023 + 1)" using x2 by linarith
  from fp_round_exact [OF grid this] show ?thesis by (simp add: x_def)
qed

lemma long_to_f64_exact: "\<bar>n\<bar> < 2 ^ 31 \<Longrightarrow> long_to_f64 n = Fin (of_int n)"
  unfolding long_to_f64_def by (rule int_exact) simp

lemma is_f32_bound:
  assumes "is_f32 r" "r \<noteq> 0"
  shows "\<bar>r\<bar> < 2 powi 128"
  using assms
  by (auto simp: is_f32_def fp_round_def Let_def signed_inf_def signed_zero_def not_le
      split: if_splits)

lemma f32_is_f64:
  assumes "is_f32 r"
  shows "fp_round 53 1023 r = Fin r"
proof (cases "r = 0")
  case True
  then show ?thesis by (simp add: fp_round_def)
next
  case False
  define e where "e = ilog2 \<bar>r\<bar>"
  define k where "k = max (- 126) e - 23 - (max (- 1022) e - 52)"
  from f32_grid [OF assms] obtain n :: int where n: "r = of_int n * quantum 24 127 r" by blast
  have k0: "0 \<le> k" by (simp add: k_def max_def)
  have "quantum 24 127 r = 2 powi (max (- 1022) e - 52 + k)"
    by (simp add: quantum_def e_def k_def)
  also have "\<dots> = 2 powi (max (- 1022) e - 52) * 2 powi k"
    by (simp add: power_int_add)
  also have "\<dots> = quantum 53 1023 r * 2 ^ nat k"
    using k0 by (simp add: quantum_def e_def powi_nat)
  finally have q: "quantum 24 127 r = quantum 53 1023 r * 2 ^ nat k" .
  have grid: "r = of_int (n * 2 ^ nat k) * quantum 53 1023 r"
  proof -
    have "r = of_int n * (quantum 53 1023 r * 2 ^ nat k)" using n unfolding q .
    then show ?thesis by (simp add: mult.assoc mult.commute [of "quantum 53 1023 r"])
  qed
  have "(2::real) powi 128 \<le> 2 powi (1023 + 1)" by (rule power_int_increasing) simp_all
  then have "\<bar>r\<bar> < 2 powi (1023 + 1)" using is_f32_bound [OF assms False] by linarith
  from fp_round_exact [OF grid this] show ?thesis .
qed

text \<open>The quotient of the stop handlers, against the exact quotient.\<close>

lemma moved_error:
  assumes "is_f32 r" "r \<noteq> 0" "\<bar>n\<bar> < 2 ^ 31"
    and "is_finite (f64_to_f32 (f64_div (long_to_f64 n) (f64_mul (Fin r) (Fin 1))))"
  shows "\<bar>fp_val (f64_to_f32 (f64_div (long_to_f64 n) (f64_mul (Fin r) (Fin 1))))
            - of_int n / r\<bar> \<le> \<bar>of_int n / r\<bar> / 2 ^ 23 + 1 / 2 ^ 149"
proof -
  have m: "f64_mul (Fin r) (Fin 1) = Fin r"
    using assms(2) f32_is_f64 [OF assms(1)] by (simp add: f64_mul_def fp_mul_def)
  have l: "long_to_f64 n = Fin (of_int n)" using assms(3) by (rule long_to_f64_exact)
  show ?thesis
  proof (cases "n = 0")
    case True
    then show ?thesis
      using assms(2) unfolding m l
      by (simp add: f64_div_def fp_div_def signed_zero_def fp_round_def)
  next
    case False
    have d: "f64_div (Fin (of_int n)) (Fin r) = fp_round 53 1023 (of_int n / r)"
      using False assms(2) by (simp add: f64_div_def fp_div_def)
    show ?thesis
      using assms(4) unfolding m l d by (rule f64_to_f32_error)
  qed
qed

lemma moved_exact:
  assumes "is_f32 (of_int n / r)" "r \<noteq> 0" "n \<noteq> 0" "is_f32 r" "\<bar>n\<bar> < 2 ^ 31"
  shows "f64_to_f32 (f64_div (long_to_f64 n) (f64_mul (Fin r) (Fin 1))) = Fin (of_int n / r)"
proof -
  have m: "f64_mul (Fin r) (Fin 1) = Fin r"
    using assms(2) f32_is_f64 [OF assms(4)] by (simp add: f64_mul_def fp_mul_def)
  have l: "long_to_f64 n = Fin (of_int n)" using assms(5) by (rule long_to_f64_exact)
  have d: "f64_div (Fin (of_int n)) (Fin r) = fp_round 53 1023 (of_int n / r)"
    using assms(2,3) by (simp add: f64_div_def fp_div_def)
  show ?thesis
    unfolding m l d f32_is_f64 [OF assms(1)] using assms(1) by (simp add: is_f32_def)
qed

lemma finite_cases: "is_finite a \<Longrightarrow> fp_val a \<noteq> 0 \<Longrightarrow> a = Fin (fp_val a)"
  by (cases a) simp_all

lemma fp_round_not_nan: "\<not> is_nan (fp_round p emax x)"
  by (simp add: fp_round_def Let_def signed_inf_def signed_zero_def)

lemma f32_add_fin_not_nan: "\<not> is_nan a \<Longrightarrow> \<not> is_nan (f32_add a (Fin c))"
  by (cases a) (simp_all add: f32_add_def fp_add_def fp_round_not_nan)

section \<open>The state: what each step touches\<close>

lemma println_fields [simp]:
  "g_data (println l s) = g_data s" "eeprom (println l s) = eeprom s"
  "motor (println l s) = motor s" "sent (println l s) = sent s"
  "restarted (println l s) = restarted s" "serial (println l s) = serial s @ [l]"
  by (simp_all add: println_def)

lemma send_fields [simp]:
  "g_data (send c b s) = g_data s" "eeprom (send c b s) = eeprom s"
  "motor (send c b s) = motor s" "sent (send c b s) = sent s @ [(c, b)]"
  "restarted (send c b s) = restarted s" "serial (send c b s) = serial s"
  by (simp_all add: send_def)

lemma commit_fields [simp]:
  "g_data (commit s) = g_data s" "eeprom (commit s) = g_data s"
  "motor (commit s) = motor s" "sent (commit s) = sent s"
  "restarted (commit s) = restarted s" "serial (commit s) = serial s"
  by (simp_all add: commit_def)

lemma positions_simps:
  "position_left (positions l p c r) = l"
  "position_current_previous (positions l p c r) = p"
  "position_current (positions l p c r) = c"
  "position_right (positions l p c r) = r"
  "steps_per_revolution (positions l p c r) = Fin 2048"
  "stepper_motor_and_driver (positions l p c r) = 0"
  "(positions l p c r)\<lparr>position_current_previous := p', position_current := c'\<rparr> =
     positions l p' c' r"
  by (simp_all add: positions_def default_settings_def)

lemma default_positions:
  "default_settings = positions (Fin (- 100)) (Fin 0) (Fin 0) (Fin 100)"
  by (simp add: positions_def default_settings_def DEFAULT_POSITION_LEFT_def
      DEFAULT_POSITION_RIGHT_def DEFAULT_POSITION_CURRENT_def DEFAULT_POSITION_CURRENT_PREVIOUS_def)

lemma state_of_fields [simp]:
  "g_data (state_of d m) = d" "eeprom (state_of d m) = d" "motor (state_of d m) = m"
  "serial (state_of d m) = []" "sent (state_of d m) = []"
  by (simp_all add: state_of_def)

section \<open>The dispatch of \<^verbatim>\<open>handle_api\<close>\<close>

lemma api_set_api_other: "action req \<noteq> ''set_api'' \<Longrightarrow> api_set_api req s = s"
  by (simp add: api_set_api_def)

lemma handle_api_authorized:
  "action req \<noteq> ''set_api'' \<Longrightarrow> api req = apikey (g_data s) \<Longrightarrow>
   handle_api toFloat toInt req s = api_dispatch toFloat toInt req s"
  by (simp add: handle_api_def api_set_api_other)

lemma dispatch:
  "action req = ''set_host'' \<Longrightarrow> api_dispatch tf ti req s = api_set_host req s"
  "action req = ''set_language'' \<Longrightarrow> api_dispatch tf ti req s = api_set_language ti req s"
  "action req = ''reset_left'' \<Longrightarrow> api_dispatch tf ti req s = api_reset_left s"
  "action req = ''reset_current'' \<Longrightarrow> api_dispatch tf ti req s = api_reset_current s"
  "action req = ''reset_right'' \<Longrightarrow> api_dispatch tf ti req s = api_reset_right s"
  "action req = ''set_left'' \<Longrightarrow> api_dispatch tf ti req s = api_set_left tf req s"
  "action req = ''move_motor'' \<Longrightarrow> api_dispatch tf ti req s = api_move_motor tf req s"
  "action req = ''set_right'' \<Longrightarrow> api_dispatch tf ti req s = api_set_right tf req s"
  "action req = ''move_total_left'' \<Longrightarrow> api_dispatch tf ti req s = api_move_total_left s"
  "action req = ''move_total_right'' \<Longrightarrow> api_dispatch tf ti req s = api_move_total_right s"
  "action req = ''stop_motor'' \<Longrightarrow> api_dispatch tf ti req s = api_stop_motor s"
  "action req = ''motor_acceleration'' \<Longrightarrow>
     api_dispatch tf ti req s = api_motor_acceleration tf req s"
  "action req = ''motor_max_speed'' \<Longrightarrow> api_dispatch tf ti req s = api_motor_max_speed tf req s"
  by (simp_all add: api_dispatch_def)

lemma api_call_simps:
  "api_call ''reset_current'' s = api_reset_current s"
  "api_call ''move_total_left'' s = api_move_total_left s"
  "api_call ''stop_motor'' s = api_stop_motor s"
  by (simp_all add: api_call_def handle_api_authorized dispatch)

section \<open>\<^verbatim>\<open>move_motor\<close>: the clamped move\<close>

lemma clamp_rotations_ordered:
  assumes "ordered d" and "\<not> is_nan (f32_add (position_current d) x)"
  shows "ordered (snd (clamp_rotations d x))"
  using assms
  by (auto simp: ordered_def clamp_rotations_def dest: fp_le_not_nan
      intro: fp_le_refl not_fp_lt_le not_fp_gt_le)

lemma clamp_rotations_fields:
  "position_current_previous (snd (clamp_rotations d x)) = position_current d"
  "position_left (snd (clamp_rotations d x)) = position_left d"
  "position_right (snd (clamp_rotations d x)) = position_right d"
  by (simp_all add: clamp_rotations_def)

lemma move_motor_idle:
  "\<not> isRunning (motor s) \<Longrightarrow>
   fst (move_motor x s) = fst (clamp_rotations (g_data s) x) \<and>
   g_data (snd (move_motor x s)) = snd (clamp_rotations (g_data s) x) \<and>
   eeprom (snd (move_motor x s)) = snd (clamp_rotations (g_data s) x)"
  by (simp add: move_motor_def commit_def Let_def split: prod.splits)

lemma move_motor_running:
  "isRunning (motor s) \<Longrightarrow>
   move_motor x s = (Fin 0, println ''Motor still running, ignoring request to move'' s)"
  by (simp add: move_motor_def)

lemma third_press_data:
  "g_data third_press =
   positions (Fin (- 100)) (Fin (13421773 / 2 ^ 27)) (Fin (13421773 / 2 ^ 26)) (Fin 100)"
  by (simp add: third_press_def float_lit_tenth) (simp add: fp_eval)

lemma third_press_idle: "\<not> isRunning (motor third_press)"
  by (simp add: third_press_def idle_motor_def)

lemma third_sum:
  "f32_add (Fin (13421773 / 2 ^ 26)) (Fin (13421773 / 2 ^ 27)) = Fin (10066330 / 2 ^ 25)"
  by (simp add: fp_eval)

lemma third_difference:
  "f32_sub (Fin (10066330 / 2 ^ 25)) (Fin (13421773 / 2 ^ 26)) = Fin (13421774 / 2 ^ 27)"
  by (simp add: fp_eval)

lemma third_press_clamp:
  "clamp_rotations (g_data third_press) (Fin (13421773 / 2 ^ 27)) =
     (Fin (13421773 / 2 ^ 27),
      positions (Fin (- 100)) (Fin (13421773 / 2 ^ 26)) (Fin (10066330 / 2 ^ 25)) (Fin 100))"
  unfolding third_press_data clamp_rotations_def positions_simps third_sum
  by (simp add: fp_lt_def fp_gt_def)

lemma third_press_moved:
  "fst (move_motor (Fin (13421773 / 2 ^ 27)) third_press) = Fin (13421773 / 2 ^ 27)"
  "position_current (g_data (snd (move_motor (Fin (13421773 / 2 ^ 27)) third_press))) =
     Fin (10066330 / 2 ^ 25)"
  using move_motor_idle [OF third_press_idle, of "Fin (13421773 / 2 ^ 27)"]
  unfolding third_press_clamp by (simp_all add: positions_simps)

lemma third_press_fields:
  "position_current (g_data third_press) = Fin (13421773 / 2 ^ 26)"
  "position_left (g_data third_press) = Fin (- 100)"
  "position_right (g_data third_press) = Fin 100"
  unfolding third_press_data positions_simps by (rule refl)+

lemma third_press_ordered:
  "fp_le (Fin (- 100)) (Fin (13421773 / 2 ^ 26))" "fp_le (Fin (13421773 / 2 ^ 26)) (Fin 100)"
  by (simp_all add: fp_le_def)

text \<open>
  C1, as amended.  For every position record with \<^verbatim>\<open>left <= current <= right\<close> (as C
  compares floats), every requested delta whose \<^verbatim>\<open>float\<close> sum with \<^verbatim>\<open>current\<close> is not a
  NaN, and the motor idle, \<^verbatim>\<open>move_motor\<close> commits a record with
  \<^verbatim>\<open>left <= current <= right\<close> whose \<^verbatim>\<open>previous\<close> is the old \<^verbatim>\<open>current\<close> and whose
  thresholds are the old ones.  When the sum falls below \<^verbatim>\<open>left\<close> (above \<^verbatim>\<open>right\<close>) the new
  \<^verbatim>\<open>current\<close> is that threshold and the returned delta is the \<^verbatim>\<open>float\<close> difference of new
  and old \<^verbatim>\<open>current\<close>; otherwise the new \<^verbatim>\<open>current\<close> is the rounded \<^verbatim>\<open>float\<close> sum of old
  \<^verbatim>\<open>current\<close> and delta, and the requested delta is returned as it is.  So the returned
  delta equals the new \<^verbatim>\<open>current\<close> minus the old one up to one rounding: among finite
  numbers the two differ by at most half the distance between neighbouring \<^verbatim>\<open>float\<close>s.
\<close>

theorem move_motor_clamps:
  assumes "\<not> isRunning (motor s)"
    and "fp_le (position_left (g_data s)) (position_current (g_data s))"
    and "fp_le (position_current (g_data s)) (position_right (g_data s))"
    and "\<not> is_nan (f32_add (position_current (g_data s)) delta)"
  shows "let d = g_data s; d' = g_data (snd (move_motor delta s)); r = fst (move_motor delta s);
             c = position_current d; c' = position_current d';
             target = f32_add c delta
         in eeprom (snd (move_motor delta s)) = d' \<and>
            fp_le (position_left d') c' \<and>
            fp_le c' (position_right d') \<and>
            position_current_previous d' = c \<and>
            position_left d' = position_left d \<and> position_right d' = position_right d \<and>
            (if fp_lt target (position_left d) \<or> fp_gt target (position_right d) then
               c' = (if fp_lt target (position_left d) then position_left d
                     else position_right d) \<and>
               r = f32_sub c' c \<and>
               (is_finite c \<and> is_finite c' \<and> is_finite r \<longrightarrow>
                  \<bar>fp_val r - (fp_val c' - fp_val c)\<bar> \<le> f32_half_ulp (fp_val c' - fp_val c))
             else
               c' = target \<and> r = delta \<and>
               (is_finite c \<and> is_finite r \<and> is_finite c' \<longrightarrow>
                  \<bar>fp_val c' - (fp_val c + fp_val r)\<bar> \<le> f32_half_ulp (fp_val c + fp_val r)))"
proof -
  have o: "ordered (g_data s)"
    using assms(2,3) by (auto simp: ordered_def intro: fp_le_trans)
  have o': "ordered (snd (clamp_rotations (g_data s) delta))"
    using o assms(4) by (rule clamp_rotations_ordered)
  have branches:
    "fst (clamp_rotations (g_data s) delta) =
       (if fp_lt (f32_add (position_current (g_data s)) delta) (position_left (g_data s)) \<or>
           fp_gt (f32_add (position_current (g_data s)) delta) (position_right (g_data s))
        then f32_sub (position_current (snd (clamp_rotations (g_data s) delta)))
               (position_current (g_data s))
        else delta)"
    "position_current (snd (clamp_rotations (g_data s) delta)) =
       (if fp_lt (f32_add (position_current (g_data s)) delta) (position_left (g_data s))
        then position_left (g_data s)
        else if fp_gt (f32_add (position_current (g_data s)) delta) (position_right (g_data s))
        then position_right (g_data s)
        else f32_add (position_current (g_data s)) delta)"
    by (simp_all add: clamp_rotations_def)
  show ?thesis
    using move_motor_idle [OF assms(1), of delta] o'
    by (simp add: Let_def ordered_def clamp_rotations_fields branches f32_add_error
        f32_sub_error)
qed

text \<open>The theorem at the third press of the button \<^verbatim>\<open>right0.1\<close>.\<close>

theorem move_motor_clamps_witness:
  "\<not> isRunning (motor third_press) \<and>
   fp_le (position_left (g_data third_press)) (position_current (g_data third_press)) \<and>
   fp_le (position_current (g_data third_press)) (position_right (g_data third_press)) \<and>
   \<not> is_nan (f32_add (position_current (g_data third_press)) (float_lit (1 / 10))) \<and>
   eeprom (snd (move_motor (float_lit (1 / 10)) third_press)) =
     g_data (snd (move_motor (float_lit (1 / 10)) third_press)) \<and>
   fp_le (position_current (g_data (snd (move_motor (float_lit (1 / 10)) third_press))))
     (Fin 100) \<and>
   position_current_previous (g_data (snd (move_motor (float_lit (1 / 10)) third_press))) =
     Fin (13421773 / 2 ^ 26)"
proof -
  have h2: "fp_le (position_left (g_data third_press)) (position_current (g_data third_press))"
    and h3: "fp_le (position_current (g_data third_press)) (position_right (g_data third_press))"
    unfolding third_press_fields by (rule third_press_ordered)+
  have h4: "\<not> is_nan (f32_add (position_current (g_data third_press)) (float_lit (1 / 10)))"
    unfolding third_press_fields float_lit_tenth third_sum by simp
  show ?thesis
    using move_motor_clamps [OF third_press_idle h2 h3 h4] third_press_idle h2 h3 h4
    unfolding Let_def third_press_fields by metis
qed

lemma float_lit_tiny: "float_lit (1 / 10000000) = Fin (14073749 / 2 ^ 47)"
  by (simp add: float_lit_def fp_eval)

lemma tiny_sum: "f32_add (Fin 50) (Fin (14073749 / 2 ^ 47)) = Fin 50"
  by (simp add: fp_eval)

lemma at_fifty_data: "g_data at_fifty = positions (Fin 0) (Fin 0) (Fin 50) (Fin 100)"
  by (simp add: at_fifty_def)

lemma at_fifty_idle: "\<not> isRunning (motor at_fifty)"
  by (simp add: at_fifty_def idle_motor_def)

lemma at_fifty_clamp:
  "clamp_rotations (g_data at_fifty) (Fin (14073749 / 2 ^ 47)) =
     (Fin (14073749 / 2 ^ 47), positions (Fin 0) (Fin 50) (Fin 50) (Fin 100))"
  unfolding at_fifty_data clamp_rotations_def positions_simps tiny_sum
  by (simp add: fp_lt_def fp_gt_def)

lemma at_fifty_moved:
  "fst (move_motor (Fin (14073749 / 2 ^ 47)) at_fifty) = Fin (14073749 / 2 ^ 47)"
  "position_current (g_data (snd (move_motor (Fin (14073749 / 2 ^ 47)) at_fifty))) = Fin 50"
  using move_motor_idle [OF at_fifty_idle, of "Fin (14073749 / 2 ^ 47)"]
  unfolding at_fifty_clamp by (simp_all add: positions_simps)

lemma at_fifty_fields:
  "position_current (g_data at_fifty) = Fin 50"
  "position_left (g_data at_fifty) = Fin 0"
  "position_right (g_data at_fifty) = Fin 100"
  unfolding at_fifty_data positions_simps by (rule refl)+

text \<open>
  The claim as it stands fails at that press: with \<^verbatim>\<open>current = 0.2f\<close> the move by \<^verbatim>\<open>0.1f\<close>
  returns \<^verbatim>\<open>0.1f\<close>, and the new \<^verbatim>\<open>current\<close> minus the old one is another number, whether
  the difference is taken in \<^verbatim>\<open>float\<close> or exactly.  It fails more visibly for a small
  delta: at \<^verbatim>\<open>current = 50\<close> the move by \<^verbatim>\<open>0.0000001\<close> returns that delta and leaves
  \<^verbatim>\<open>current\<close> where it was.
\<close>

theorem move_motor_delta_counterexample:
  "\<not> isRunning (motor third_press) \<and>
   fp_le (position_left (g_data third_press)) (position_current (g_data third_press)) \<and>
   fp_le (position_current (g_data third_press)) (position_right (g_data third_press)) \<and>
   fst (move_motor (float_lit (1 / 10)) third_press) = float_lit (1 / 10) \<and>
   f32_sub (position_current (g_data (snd (move_motor (float_lit (1 / 10)) third_press))))
           (position_current (g_data third_press)) \<noteq> float_lit (1 / 10) \<and>
   fp_val (position_current (g_data (snd (move_motor (float_lit (1 / 10)) third_press))))
     - fp_val (position_current (g_data third_press)) \<noteq> fp_val (float_lit (1 / 10)) \<and>
   \<not> isRunning (motor at_fifty) \<and>
   fp_le (position_left (g_data at_fifty)) (position_current (g_data at_fifty)) \<and>
   fp_le (position_current (g_data at_fifty)) (position_right (g_data at_fifty)) \<and>
   fst (move_motor (float_lit (1 / 10000000)) at_fifty) = float_lit (1 / 10000000) \<and>
   fp_val (float_lit (1 / 10000000)) \<noteq> 0 \<and>
   position_current (g_data (snd (move_motor (float_lit (1 / 10000000)) at_fifty))) =
     position_current (g_data at_fifty)"
proof -
  have ne: "Fin (13421774 / 2 ^ 27) \<noteq> Fin (13421773 / 2 ^ 27)"
    "fp_val (Fin (10066330 / 2 ^ 25)) - fp_val (Fin (13421773 / 2 ^ 26)) \<noteq>
     fp_val (Fin (13421773 / 2 ^ 27))"
    "fp_val (Fin (14073749 / 2 ^ 47)) \<noteq> 0"
    by simp_all
  have le: "fp_le (Fin 0) (Fin 50)" "fp_le (Fin 50) (Fin 100)"
    by (simp_all add: fp_le_def)
  show ?thesis
    unfolding float_lit_tenth third_press_moved third_press_fields third_difference
      float_lit_tiny at_fifty_moved at_fifty_fields
    using third_press_idle third_press_ordered ne at_fifty_idle le by blast
qed

section \<open>\<^verbatim>\<open>move_motor\<close> while the motor runs\<close>

text \<open>
  C5.  While the motor is running, \<^verbatim>\<open>move_motor\<close> reports on the serial line that the motor
  is still running and the request is ignored, returns \<^verbatim>\<open>0.0\<close>, and leaves the record, the
  EEPROM and the motor as they were; the API action \<^verbatim>\<open>move_motor\<close> with a value then
  answers with status 200 (not an error) and 0.00 rotations performed, and the step
  buttons of the web interface answer with the page.
\<close>

theorem move_motor_busy:
  assumes "isRunning (motor s)"
  shows "fst (move_motor x s) = Fin 0 \<and>
         g_data (snd (move_motor x s)) = g_data s \<and>
         eeprom (snd (move_motor x s)) = eeprom s \<and>
         motor (snd (move_motor x s)) = motor s \<and>
         sent (snd (move_motor x s)) = sent s \<and>
         serial (snd (move_motor x s)) =
           serial s @ [''Motor still running, ignoring request to move''] \<and>
         (let s' = handle_api toFloat toInt
                     \<lparr>action = ''move_motor'', value_arg = v, api = apikey (g_data s)\<rparr> s
          in g_data s' = g_data s \<and> eeprom s' = eeprom s \<and> motor s' = motor s \<and>
             (if v = [] then
                sent s' = sent s @ [(501, Text ''NOK (no value supplied for 'move_motor' action)'')]
              else
                sent s' = sent s @
                  [(200, Fmt ''OK (the 'move_motor' action has performed '%1.2f' rotations)''
                           [F (Fin 0)])])) \<and>
         (let s' = handle_move_left x s
          in g_data s' = g_data s \<and> eeprom s' = eeprom s \<and> motor s' = motor s \<and>
             sent s' = sent s @ [(200, Page)]) \<and>
         (let s' = handle_move_right x s
          in g_data s' = g_data s \<and> eeprom s' = eeprom s \<and> motor s' = motor s \<and>
             sent s' = sent s @ [(200, Page)])"
  using assms
  by (simp add: move_motor_running handle_api_authorized dispatch api_move_motor_def Let_def
      handle_move_left_def handle_move_right_def)

theorem move_motor_busy_witness:
  "isRunning (motor busy_state) \<and>
   fst (move_motor (Fin 1) busy_state) = Fin 0 \<and>
   g_data (snd (move_motor (Fin 1) busy_state)) = default_settings \<and>
   eeprom (snd (move_motor (Fin 1) busy_state)) = default_settings \<and>
   motor (snd (move_motor (Fin 1) busy_state)) = running_motor"
proof -
  have h: "isRunning (motor busy_state)"
    by (simp add: busy_state_def running_motor_def)
  show ?thesis
    using move_motor_busy [OF h, of "Fin 1"] h by (simp add: busy_state_def)
qed

section \<open>Stopping: the position from the step counter\<close>

lemma stop_fields [simp]:
  "isRunning (stop m) = isRunning m" "currentPosition (stop m) = currentPosition m"
  by (simp_all add: stop_def)

lemma positions_moved_stop: "positions_moved (s\<lparr>motor := stop (motor s)\<rparr>) = positions_moved s"
  by (simp add: positions_moved_def)

lemma stop_and_reconcile_data:
  "g_data (stop_and_reconcile s) =
     (if fp_gt (fp_abs (positions_moved s)) g_epsilon then
        (g_data s)\<lparr>position_current :=
           f32_add (position_current_previous (g_data s)) (positions_moved s)\<rparr>
      else g_data s)"
  "eeprom (stop_and_reconcile s) =
     (if fp_gt (fp_abs (positions_moved s)) g_epsilon then g_data (stop_and_reconcile s)
      else eeprom s)"
  "currentPosition (motor (stop_and_reconcile s)) = 0"
  "isRunning (motor (stop_and_reconcile s)) = False"
  by (simp_all add: stop_and_reconcile_def Let_def positions_moved_stop setCurrentPosition_def
      commit_def)

lemma stop_and_reconcile_calls:
  "calls (motor (stop_and_reconcile s)) = calls (motor s) @ [Stop, SetCurrentPosition 0]"
  by (simp add: stop_and_reconcile_def Let_def setCurrentPosition_def commit_def stop_def)

lemma stop_handlers:
  "g_data (api_stop_motor s) = g_data (stop_and_reconcile s)"
  "eeprom (api_stop_motor s) = eeprom (stop_and_reconcile s)"
  "motor (api_stop_motor s) = motor (stop_and_reconcile s)"
  "g_data (handle_stop_motor s) = g_data (stop_and_reconcile s)"
  "eeprom (handle_stop_motor s) = eeprom (stop_and_reconcile s)"
  "motor (handle_stop_motor s) = motor (stop_and_reconcile s)"
  by (simp_all add: api_stop_motor_def handle_stop_motor_def stop_and_reconcile_def Let_def
      positions_moved_def commit_def)

lemma moved_150_of_200:
  "f64_to_f32 (f64_div (long_to_f64 150) (f64_mul (Fin 200) (Fin 1))) = Fin (3 / 4)"
  by (simp add: fp_eval)

lemma gt_eps_3_4: "fp_gt (fp_abs (Fin (3 / 4))) g_epsilon"
  unfolding g_epsilon_val by (simp add: fp_gt_def fp_lt_def)

lemma add_10_3_4: "f32_add (Fin 10) (Fin (3 / 4)) = Fin (43 / 4)"
  by (simp add: fp_eval)

lemma stop_data_explicit:
  "g_data (stop_and_reconcile s) =
     (let moved = f64_to_f32 (f64_div (long_to_f64 (currentPosition (motor s)))
                    (f64_mul (steps_per_revolution (g_data s)) (Fin 1)))
      in if fp_gt (fp_abs moved) g_epsilon then
           (g_data s)\<lparr>position_current :=
              f32_add (position_current_previous (g_data s)) moved\<rparr>
         else g_data s)"
  by (simp add: stop_and_reconcile_data positions_moved_def Let_def)

text \<open>
  C6.  Both \<^verbatim>\<open>stop_motor\<close> paths (API action and web button) compute \<open>moved\<close>, the
  quotient of the step counter \<^verbatim>\<open>currentPosition()\<close> by \<^verbatim>\<open>steps_per_revolution\<close>, taken in
  \<^verbatim>\<open>double\<close> and stored in a \<^verbatim>\<open>float\<close>.  If \<^verbatim>\<open>fabs(moved) > g_epsilon\<close> the committed
  \<^verbatim>\<open>current\<close> is the \<^verbatim>\<open>float\<close> sum \<^verbatim>\<open>previous + moved\<close>, otherwise the record and the
  EEPROM stay as they were; the motor is told to stop before, and its step counter is
  set to zero after.  For a \<^verbatim>\<open>float\<close> \<^verbatim>\<open>steps_per_revolution\<close> other than zero and a
  counter of 32 bits, \<open>moved\<close> is the exact quotient whenever that is a \<^verbatim>\<open>float\<close>, and
  otherwise differs from the quotient \<open>q\<close> by at most \<open>\<bar>q\<bar> / 2 ^ 23 + 1 / 2 ^ 149\<close>;
  the sum is within half the distance between neighbouring \<^verbatim>\<open>float\<close>s of the exact sum.
  In particular
  \<^verbatim>\<open>previous = 10.0\<close>, 200 steps per revolution and 150 steps travelled give
  \<open>moved = 0.75\<close> and \<^verbatim>\<open>current = 10.75\<close>.
\<close>

theorem stop_motor_reconciles:
  "let p = position_current_previous (g_data s);
       c = currentPosition (motor s);
       spr = steps_per_revolution (g_data s);
       moved = f64_to_f32 (f64_div (long_to_f64 c) (f64_mul spr (Fin 1)));
       d' = (if fp_gt (fp_abs moved) g_epsilon
             then (g_data s)\<lparr>position_current := f32_add p moved\<rparr> else g_data s);
       e' = (if fp_gt (fp_abs moved) g_epsilon then d' else eeprom s);
       m' = (motor s)\<lparr>isRunning := False, currentPosition := 0,
                       calls := calls (motor s) @ [Stop, SetCurrentPosition 0]\<rparr>;
       a = handle_api toFloat toInt
             \<lparr>action = ''stop_motor'', value_arg = v, api = apikey (g_data s)\<rparr> s;
       b = handle_stop_motor s
   in g_data a = d' \<and> eeprom a = e' \<and> motor a = m' \<and>
      g_data b = d' \<and> eeprom b = e' \<and> motor b = m' \<and>
      (is_finite spr \<and> fp_val spr \<noteq> 0 \<and> is_f32 (fp_val spr) \<and> \<bar>c\<bar> < 2 ^ 31 \<and>
       is_finite moved \<longrightarrow>
         \<bar>fp_val moved - of_int c / fp_val spr\<bar>
           \<le> \<bar>of_int c / fp_val spr\<bar> / 2 ^ 23 + 1 / 2 ^ 149) \<and>
      (is_finite spr \<and> fp_val spr \<noteq> 0 \<and> is_f32 (fp_val spr) \<and> \<bar>c\<bar> < 2 ^ 31 \<and>
       c \<noteq> 0 \<and> is_f32 (of_int c / fp_val spr) \<longrightarrow>
         moved = Fin (of_int c / fp_val spr)) \<and>
      (is_finite p \<and> is_finite moved \<and> is_finite (f32_add p moved) \<longrightarrow>
         \<bar>fp_val (f32_add p moved) - (fp_val p + fp_val moved)\<bar>
           \<le> f32_half_ulp (fp_val p + fp_val moved)) \<and>
      (p = Fin 10 \<and> spr = Fin 200 \<and> c = 150 \<longrightarrow>
         moved = Fin (3 / 4) \<and> fp_gt (fp_abs moved) g_epsilon \<and>
         position_current d' = Fin (43 / 4))"
proof -
  define c where "c = currentPosition (motor s)"
  define spr where "spr = steps_per_revolution (g_data s)"
  define moved where "moved = f64_to_f32 (f64_div (long_to_f64 c) (f64_mul spr (Fin 1)))"
  have pm: "positions_moved s = moved"
    by (simp add: positions_moved_def moved_def c_def spr_def)
  have motor_eq: "motor (stop_and_reconcile s) =
      (motor s)\<lparr>isRunning := False, currentPosition := 0,
                 calls := calls (motor s) @ [Stop, SetCurrentPosition 0]\<rparr>"
    by (simp add: stop_and_reconcile_def Let_def setCurrentPosition_def stop_def)
  have bound: "\<bar>fp_val moved - of_int c / fp_val spr\<bar>
           \<le> \<bar>of_int c / fp_val spr\<bar> / 2 ^ 23 + 1 / 2 ^ 149"
    if "is_finite spr" "fp_val spr \<noteq> 0" "is_f32 (fp_val spr)" "\<bar>c\<bar> < 2 ^ 31" "is_finite moved"
  proof -
    have e: "spr = Fin (fp_val spr)" using that(1,2) by (rule finite_cases)
    show ?thesis
      using moved_error [OF that(3) that(2) that(4)] that(5)
      unfolding moved_def by (subst (asm) (1 2) e, subst (1) e) simp
  qed
  have exact: "moved = Fin (of_int c / fp_val spr)"
    if "is_finite spr" "fp_val spr \<noteq> 0" "is_f32 (fp_val spr)" "\<bar>c\<bar> < 2 ^ 31" "c \<noteq> 0"
       "is_f32 (of_int c / fp_val spr)"
  proof -
    have e: "spr = Fin (fp_val spr)" using that(1,2) by (rule finite_cases)
    show ?thesis
      unfolding moved_def using moved_exact [OF that(6) that(2) that(5) that(3) that(4)]
      by (subst e) simp
  qed
  have particular: "moved = Fin (3 / 4)" if "spr = Fin 200" "c = 150"
    unfolding moved_def that moved_150_of_200 by (rule refl)
  show ?thesis
    unfolding Let_def c_def [symmetric] spr_def [symmetric] moved_def [symmetric]
    using bound exact particular gt_eps_3_4
    by (simp add: handle_api_authorized dispatch stop_handlers stop_and_reconcile_data pm
        motor_eq f32_add_error add_10_3_4)
qed

lemma is_f32_200: "is_f32 200" "is_f32 (150 / 200)"
  by (simp_all add: is_f32_def fp_eval)

lemma stopped_early_more:
  "g_data stopped_early =
     (positions (Fin 0) (Fin 10) (Fin 40) (Fin 100))
       \<lparr>steps_per_revolution := Fin 200, stepper_motor_and_driver := 1\<rparr>"
  "eeprom stopped_early = g_data stopped_early"
  "motor stopped_early = \<lparr>isRunning = True, currentPosition = 150, calls = []\<rparr>"
  by (simp_all add: stopped_early_def)

lemma stopped_early_fields:
  "position_current_previous (g_data stopped_early) = Fin 10"
  "steps_per_revolution (g_data stopped_early) = Fin 200"
  "currentPosition (motor stopped_early) = 150"
  by (simp_all add: stopped_early_def positions_def)

text \<open>
  The theorem at the Nema17 motor stopped after 150 of the 6000 steps of its move from
  position 10 to position 40.
\<close>

theorem stop_motor_reconciles_witness:
  "position_current_previous (g_data stopped_early) = Fin 10 \<and>
   steps_per_revolution (g_data stopped_early) = Fin 200 \<and>
   currentPosition (motor stopped_early) = 150 \<and>
   is_f32 200 \<and> is_f32 (150 / 200) \<and>
   position_current (g_data stopped_early) = Fin 40 \<and>
   position_current (g_data (handle_stop_motor stopped_early)) = Fin (43 / 4) \<and>
   eeprom (handle_stop_motor stopped_early) = g_data (handle_stop_motor stopped_early) \<and>
   motor (handle_stop_motor stopped_early) =
     \<lparr>isRunning = False, currentPosition = 0, calls = [Stop, SetCurrentPosition 0]\<rparr>"
  using stop_motor_reconciles [where s = stopped_early and toFloat = toFloat0
      and toInt = toInt0 and v = "[]"] gt_eps_3_4 is_f32_200
  unfolding Let_def stopped_early_fields moved_150_of_200 add_10_3_4
  by (simp add: stopped_early_more positions_simps)

lemma stale_counter_moved: "positions_moved stale_counter = Fin 50"
  by (simp add: positions_moved_def stale_counter_def positions_simps) (simp add: fp_eval)

lemma gt_eps_50: "fp_gt (fp_abs (Fin 50)) g_epsilon"
  unfolding g_epsilon_val by (simp add: fp_gt_def fp_lt_def)

lemma add_0_50: "f32_add (Fin 0) (Fin 50) = Fin 50"
  by (simp add: fp_eval)

lemma stale_counter_stopped:
  "g_data (stop_and_reconcile stale_counter) = positions (Fin (- 100)) (Fin 0) (Fin 50) (Fin 10)"
  using gt_eps_50
  by (simp add: stop_and_reconcile_data stale_counter_moved)
     (simp add: stale_counter_def positions_def add_0_50)

text \<open>
  C10.  The stop path does not clamp.  There is a state whose record is in order,
  \<^verbatim>\<open>left <= previous <= right\<close> and \<^verbatim>\<open>left <= current <= right\<close>, and is the one in the
  EEPROM, with a step counter for which \<^verbatim>\<open>stop_motor\<close> (API action and web button alike)
  replaces \<^verbatim>\<open>current\<close> by \<^verbatim>\<open>previous\<close> plus the counter divided by
  \<^verbatim>\<open>steps_per_revolution\<close>, a position above \<^verbatim>\<open>right\<close>, and commits it: with
  \<^verbatim>\<open>previous = current = 0\<close>, \<^verbatim>\<open>right = 10\<close>, 2048 steps per revolution and a counter of
  102400 the committed \<^verbatim>\<open>current\<close> is 50, and the record is no longer in order.
\<close>

theorem stop_motor_unclamped:
  "\<exists>s. ordered (g_data s) \<and> eeprom s = g_data s \<and>
        fp_le (position_left (g_data s)) (position_current_previous (g_data s)) \<and>
        fp_le (position_current_previous (g_data s)) (position_right (g_data s)) \<and>
        position_current_previous (g_data s) = Fin 0 \<and>
        position_current (g_data s) = Fin 0 \<and>
        position_right (g_data s) = Fin 10 \<and>
        steps_per_revolution (g_data s) = Fin 2048 \<and>
        currentPosition (motor s) = 102400 \<and>
        (let s' = api_call ''stop_motor'' s; b = handle_stop_motor s
         in position_current (g_data s') = Fin 50 \<and>
            fp_val (position_current (g_data s')) =
              fp_val (position_current_previous (g_data s)) +
              of_int (currentPosition (motor s)) / fp_val (steps_per_revolution (g_data s)) \<and>
            g_data s' = (g_data s)\<lparr>position_current := Fin 50\<rparr> \<and>
            g_data s' \<noteq> g_data s \<and>
            eeprom s' = g_data s' \<and>
            fp_gt (position_current (g_data s')) (position_right (g_data s')) \<and>
            \<not> ordered (g_data s') \<and>
            g_data b = g_data s' \<and> eeprom b = g_data s')"
proof (rule exI [of _ stale_counter], intro conjI)
  have d: "g_data stale_counter = positions (Fin (- 100)) (Fin 0) (Fin 0) (Fin 10)"
    by (simp add: stale_counter_def)
  have after: "g_data (api_stop_motor stale_counter) =
      positions (Fin (- 100)) (Fin 0) (Fin 50) (Fin 10)"
    unfolding stop_handlers by (rule stale_counter_stopped)
  have e: "eeprom (api_stop_motor stale_counter) = g_data (api_stop_motor stale_counter)"
    "eeprom (handle_stop_motor stale_counter) = g_data (api_stop_motor stale_counter)"
    "g_data (handle_stop_motor stale_counter) = g_data (api_stop_motor stale_counter)"
    using gt_eps_50 by (simp_all add: stop_handlers stop_and_reconcile_data stale_counter_moved)
  show "ordered (g_data stale_counter)"
    unfolding d ordered_def positions_simps by (simp add: fp_le_def)
  show "eeprom stale_counter = g_data stale_counter"
    by (simp add: stale_counter_def)
  show "fp_le (position_left (g_data stale_counter))
          (position_current_previous (g_data stale_counter))"
    unfolding d positions_simps by (simp add: fp_le_def)
  show "fp_le (position_current_previous (g_data stale_counter))
          (position_right (g_data stale_counter))"
    unfolding d positions_simps by (simp add: fp_le_def)
  show "position_current_previous (g_data stale_counter) = Fin 0"
    "position_current (g_data stale_counter) = Fin 0"
    "position_right (g_data stale_counter) = Fin 10"
    "steps_per_revolution (g_data stale_counter) = Fin 2048"
    unfolding d positions_simps by (rule refl)+
  show "currentPosition (motor stale_counter) = 102400"
    by (simp add: stale_counter_def)
  have c: "currentPosition (motor stale_counter) = 102400"
    by (simp add: stale_counter_def)
  have ne: "positions (Fin (- 100)) (Fin 0) (Fin 50) (Fin 10) \<noteq>
            positions (Fin (- 100)) (Fin 0) (Fin 0) (Fin 10)"
  proof
    assume "positions (Fin (- 100)) (Fin 0) (Fin 50) (Fin 10) =
            positions (Fin (- 100)) (Fin 0) (Fin 0) (Fin 10)"
    then have "position_current (positions (Fin (- 100)) (Fin 0) (Fin 50) (Fin 10)) =
               position_current (positions (Fin (- 100)) (Fin 0) (Fin 0) (Fin 10))"
      by (rule arg_cong)
    then show False unfolding positions_simps by simp
  qed
  have upd: "(positions (Fin (- 100)) (Fin 0) (Fin 0) (Fin 10))\<lparr>position_current := Fin 50\<rparr> =
             positions (Fin (- 100)) (Fin 0) (Fin 50) (Fin 10)"
    by (simp add: positions_def)
  show "let s' = api_call ''stop_motor'' stale_counter; b = handle_stop_motor stale_counter
     in position_current (g_data s') = Fin 50 \<and>
        fp_val (position_current (g_data s')) =
          fp_val (position_current_previous (g_data stale_counter)) +
          of_int (currentPosition (motor stale_counter)) /
            fp_val (steps_per_revolution (g_data stale_counter)) \<and>
        g_data s' = (g_data stale_counter)\<lparr>position_current := Fin 50\<rparr> \<and>
        g_data s' \<noteq> g_data stale_counter \<and>
        eeprom s' = g_data s' \<and>
        fp_gt (position_current (g_data s')) (position_right (g_data s')) \<and>
        \<not> ordered (g_data s') \<and>
        g_data b = g_data s' \<and> eeprom b = g_data s'"
    unfolding Let_def api_call_simps e after d upd c positions_simps ordered_def
    using ne by (simp add: fp_gt_def fp_lt_def fp_le_def)
qed

section \<open>Moving to a threshold\<close>

lemma wide_range_calibrated: "\<not> left_not_set (g_data wide_range)"
  unfolding left_not_set_def g_epsilon_val DEFAULT_POSITION_LEFT_def
  by (simp add: wide_range_def positions_simps) (simp add: fp_eval)

lemma wide_range_idle: "\<not> isRunning (motor wide_range)"
  by (simp add: wide_range_def idle_motor_def)

lemma wide_range_data: "g_data wide_range = positions (Fin (- 50)) (Fin 0) (Fin 90) (Fin 90)"
  by (simp add: wide_range_def)

lemma wide_range_ordered: "ordered (g_data wide_range)"
  unfolding wide_range_data ordered_def positions_simps by (simp add: fp_le_def)

lemma wide_range_sum: "f32_add (Fin 90) (Fin (- 100)) = Fin (- 10)"
  by (simp add: fp_eval)

lemma wide_range_difference: "f32_sub (Fin (- 50)) (Fin 90) = Fin (- 140)"
  by (simp add: fp_eval)

lemma wide_range_sum': "f32_add (Fin 90) (Fin (- 140)) = Fin (- 50)"
  by (simp add: fp_eval)

lemma wide_range_clamp:
  "clamp_rotations (g_data wide_range) DEFAULT_POSITION_LEFT =
     (Fin (- 100), positions (Fin (- 50)) (Fin 90) (Fin (- 10)) (Fin 90))"
  unfolding wide_range_data clamp_rotations_def positions_simps DEFAULT_POSITION_LEFT_def
    wide_range_sum
  by (simp add: fp_lt_def fp_gt_def)

lemma wide_range_clamp':
  "clamp_rotations (g_data wide_range) (Fin (- 140)) =
     (Fin (- 140), positions (Fin (- 50)) (Fin 90) (Fin (- 50)) (Fin 90))"
  unfolding wide_range_data clamp_rotations_def positions_simps wide_range_sum'
  by (simp add: fp_lt_def fp_gt_def)

lemma move_total_left_data:
  "\<not> left_not_set (g_data s) \<Longrightarrow>
   g_data (api_move_total_left s) =
     g_data (snd (move_motor DEFAULT_POSITION_LEFT
                    (println ''Handle 'move_total_left' action'' s))) \<and>
   g_data (handle_move_total_left s) =
     g_data (snd (move_motor DEFAULT_POSITION_LEFT (println ''[Move Total Left] pressed'' s)))"
  by (simp add: api_move_total_left_def handle_move_total_left_def Let_def)

text \<open>
  What \<^verbatim>\<open>move_total_left\<close> plans on a calibrated record with the motor idle: the clamped
  move by \<open>-100\<close>.  The left threshold is reached when \<^verbatim>\<open>current - 100 < left\<close>.
\<close>

lemma move_total_left_plan:
  assumes "\<not> left_not_set (g_data s)" and "\<not> isRunning (motor s)"
  shows "g_data (api_move_total_left s) = snd (clamp_rotations (g_data s) DEFAULT_POSITION_LEFT)"
    and "g_data (handle_move_total_left s) =
           snd (clamp_rotations (g_data s) DEFAULT_POSITION_LEFT)"
    and "fp_lt (f32_add (position_current (g_data s)) DEFAULT_POSITION_LEFT)
           (position_left (g_data s)) \<Longrightarrow>
         position_current (g_data (handle_move_total_left s)) = position_left (g_data s)"
  using move_total_left_data [OF assms(1)]
    move_motor_idle [of "println ''Handle 'move_total_left' action'' s" DEFAULT_POSITION_LEFT]
    move_motor_idle [of "println ''[Move Total Left] pressed'' s" DEFAULT_POSITION_LEFT]
    assms(2)
  by (simp_all add: clamp_rotations_def)

text \<open>
  C3 at a failing input.  With the thresholds calibrated at \<open>-50\<close> and \<open>90\<close>, the
  curtain at \<open>90\<close> and the motor idle, \<^verbatim>\<open>move_total_left\<close> (API action and web button) plans
  the position \<open>-10\<close>, not the threshold: it calls \<^verbatim>\<open>move_motor(DEFAULT_POSITION_LEFT)\<close>, a
  move by \<open>-100\<close>, where a move by \<^verbatim>\<open>left - current\<close> reaches \<open>-50\<close>.
\<close>

theorem move_total_left_stops_short:
  "\<not> left_not_set (g_data wide_range) \<and> \<not> isRunning (motor wide_range) \<and>
   ordered (g_data wide_range) \<and>
   position_left (g_data (api_call ''move_total_left'' wide_range)) = Fin (- 50) \<and>
   position_current (g_data (api_call ''move_total_left'' wide_range)) = Fin (- 10) \<and>
   position_current (g_data (handle_move_total_left wide_range)) = Fin (- 10) \<and>
   position_current (g_data (snd (move_motor
      (f32_sub (position_left (g_data wide_range)) (position_current (g_data wide_range)))
      wide_range))) = Fin (- 50)"
proof -
  have a: "g_data (api_move_total_left wide_range) =
             positions (Fin (- 50)) (Fin 90) (Fin (- 10)) (Fin 90)"
    and b: "g_data (handle_move_total_left wide_range) =
             positions (Fin (- 50)) (Fin 90) (Fin (- 10)) (Fin 90)"
    using move_total_left_data [OF wide_range_calibrated]
      move_motor_idle [of "println ''Handle 'move_total_left' action'' wide_range"
        DEFAULT_POSITION_LEFT]
      move_motor_idle [of "println ''[Move Total Left] pressed'' wide_range"
        DEFAULT_POSITION_LEFT]
      wide_range_idle
    by (simp_all add: wide_range_clamp)
  have c: "g_data (snd (move_motor (Fin (- 140)) wide_range)) =
             positions (Fin (- 50)) (Fin 90) (Fin (- 50)) (Fin 90)"
    using move_motor_idle [OF wide_range_idle, of "Fin (- 140)"]
    by (simp add: wide_range_clamp')
  show ?thesis
    unfolding api_call_simps a b wide_range_data positions_simps wide_range_difference
    using wide_range_calibrated wide_range_idle wide_range_ordered c
    by (simp add: positions_simps wide_range_data)
qed

text \<open>
  The gate on a \<^verbatim>\<open>float\<close> threshold: around \<open>-100\<close> and \<open>100\<close> neighbouring \<^verbatim>\<open>float\<close>s are
  \<^verbatim>\<open>1/131072\<close> apart, so the only \<^verbatim>\<open>float\<close>s less than \<^verbatim>\<open>0.00001\<close> away from a default are
  the default and its two neighbours, and the gate holds at the three.
\<close>

lemma near_minus_100:
  assumes "is_f32 x" "\<bar>x - (- 100)\<bar> < 1 / 100000"
  shows "x = - 100 \<or> x = - 100 + 1 / 2 ^ 17 \<or> x = - 100 - 1 / 2 ^ 17"
proof -
  have r: "- 101 < x" "x < - 99" using assms(2) by linarith+
  have p: "(2::real) powi 6 = 64" "(2::real) powi (6 + 1) = 128" by simp_all
  have "2 powi 6 \<le> \<bar>x\<bar>" "\<bar>x\<bar> < 2 powi (6 + 1)" unfolding p using r by linarith+
  then have "ilog2 \<bar>x\<bar> = 6" by (rule ilog2_unique)
  then have q: "quantum 24 127 x = 1 / 2 ^ 17" by (simp add: quantum_def)
  from f32_grid [OF assms(1)] obtain n :: int where n: "x = of_int n / 2 ^ 17"
    unfolding q by auto
  have "\<bar>of_int n / 2 ^ 17 + (100::real)\<bar> < 1 / 100000"
    using assms(2) unfolding n by simp
  then have "3125 * \<bar>of_int n + 13107200\<bar> < (4096::real)"
    by (simp add: field_simps)
  then have "3125 * \<bar>of_int n + 13107200\<bar> < 3125 * (2::real)"
    by simp
  then have "\<bar>of_int n + 13107200\<bar> < (2::real)"
    by (simp only: mult_less_cancel_left_pos zero_less_numeral)
  then have "\<bar>n + 13107200\<bar> < 2" by linarith
  then have "n = - 13107200 \<or> n = - 13107199 \<or> n = - 13107201" by linarith
  then show ?thesis unfolding n by auto
qed

lemma near_plus_100:
  assumes "is_f32 x" "\<bar>x - 100\<bar> < 1 / 100000"
  shows "x = 100 \<or> x = 100 + 1 / 2 ^ 17 \<or> x = 100 - 1 / 2 ^ 17"
proof -
  have r: "99 < x" "x < 101" using assms(2) by linarith+
  have p: "(2::real) powi 6 = 64" "(2::real) powi (6 + 1) = 128" by simp_all
  have "2 powi 6 \<le> \<bar>x\<bar>" "\<bar>x\<bar> < 2 powi (6 + 1)" unfolding p using r by linarith+
  then have "ilog2 \<bar>x\<bar> = 6" by (rule ilog2_unique)
  then have q: "quantum 24 127 x = 1 / 2 ^ 17" by (simp add: quantum_def)
  from f32_grid [OF assms(1)] obtain n :: int where n: "x = of_int n / 2 ^ 17"
    unfolding q by auto
  have "\<bar>of_int n / 2 ^ 17 - (100::real)\<bar> < 1 / 100000"
    using assms(2) unfolding n by simp
  then have "3125 * \<bar>of_int n - 13107200\<bar> < (4096::real)"
    by (simp add: field_simps)
  then have "3125 * \<bar>of_int n - 13107200\<bar> < 3125 * (2::real)"
    by simp
  then have "\<bar>of_int n - 13107200\<bar> < (2::real)"
    by (simp only: mult_less_cancel_left_pos zero_less_numeral)
  then have "\<bar>n - 13107200\<bar> < 2" by linarith
  then have "n = 13107200 \<or> n = 13107199 \<or> n = 13107201" by linarith
  then show ?thesis unfolding n by auto
qed

lemma gate_at_left:
  "fp_lt (fp_abs (f64_sub (Fin (- 100)) (Fin (- 100)))) g_epsilon"
  "fp_lt (fp_abs (f64_sub (Fin (- 100 + 1 / 2 ^ 17)) (Fin (- 100)))) g_epsilon"
  "fp_lt (fp_abs (f64_sub (Fin (- 100 - 1 / 2 ^ 17)) (Fin (- 100)))) g_epsilon"
  unfolding g_epsilon_val by (simp_all add: fp_eval)

lemma gate_at_right:
  "fp_lt (fp_abs (f64_sub (Fin 100) (Fin 100))) g_epsilon"
  "fp_lt (fp_abs (f64_sub (Fin (100 + 1 / 2 ^ 17)) (Fin 100))) g_epsilon"
  "fp_lt (fp_abs (f64_sub (Fin (100 - 1 / 2 ^ 17)) (Fin 100))) g_epsilon"
  unfolding g_epsilon_val by (simp_all add: fp_eval)

lemma left_not_set_near:
  assumes "position_left d = Fin x" "is_f32 x" "\<bar>x - (- 100)\<bar> < 1 / 100000"
  shows "left_not_set d"
  using near_minus_100 [OF assms(2,3)] gate_at_left
  unfolding left_not_set_def assms(1) DEFAULT_POSITION_LEFT_def by blast

lemma right_not_set_near:
  assumes "position_right d = Fin x" "is_f32 x" "\<bar>x - 100\<bar> < 1 / 100000"
  shows "right_not_set d"
  using near_plus_100 [OF assms(2,3)] gate_at_right
  unfolding right_not_set_def assms(1) DEFAULT_POSITION_RIGHT_def by blast

lemma move_total_gate:
  "left_not_set (g_data s) \<Longrightarrow>
     (let s' = handle_api toFloat toInt
                 \<lparr>action = ''move_total_left'', value_arg = v, api = apikey (g_data s)\<rparr> s
      in g_data s' = g_data s \<and> eeprom s' = eeprom s \<and> motor s' = motor s \<and>
         sent s' = sent s @ [(501, Text ''NOK ('left' treshold not set yet)'')]) \<and>
     (let s' = handle_move_total_left s
      in g_data s' = g_data s \<and> eeprom s' = eeprom s \<and> motor s' = motor s \<and>
         sent s' = sent s @ [(501, Page)])"
  "right_not_set (g_data s) \<Longrightarrow>
     (let s' = handle_api toFloat toInt
                 \<lparr>action = ''move_total_right'', value_arg = v, api = apikey (g_data s)\<rparr> s
      in g_data s' = g_data s \<and> eeprom s' = eeprom s \<and> motor s' = motor s \<and>
         sent s' = sent s @ [(501, Text ''NOK ('right' treshold not set yet)'')]) \<and>
     (let s' = handle_move_total_right s
      in g_data s' = g_data s \<and> eeprom s' = eeprom s \<and> motor s' = motor s \<and>
         sent s' = sent s @ [(501, Page)])"
  by (simp_all add: Let_def handle_api_authorized dispatch api_move_total_left_def
      api_move_total_right_def handle_move_total_left_def handle_move_total_right_def)

text \<open>
  C8.  When the left threshold is a \<^verbatim>\<open>float\<close> less than \<^verbatim>\<open>0.00001\<close> away from its default
  \<open>-100\<close>, or more generally when the gate of the code
  \<^verbatim>\<open>fabs(position_left - DEFAULT_POSITION_LEFT) < g_epsilon\<close> holds, \<^verbatim>\<open>move_total_left\<close>
  answers with status 501 (the API with the text that the left threshold is not set
  yet), calls nothing on the motor and leaves the record and the EEPROM as they were;
  likewise \<^verbatim>\<open>move_total_right\<close> for the right threshold and its default \<open>100\<close>.
\<close>

theorem move_total_not_calibrated:
  "(left_not_set (g_data s) \<or>
    (position_left (g_data s) = Fin x \<and> is_f32 x \<and> \<bar>x - (- 100)\<bar> < 1 / 100000) \<longrightarrow>
      (let s' = handle_api toFloat toInt
                  \<lparr>action = ''move_total_left'', value_arg = v, api = apikey (g_data s)\<rparr> s
       in g_data s' = g_data s \<and> eeprom s' = eeprom s \<and> motor s' = motor s \<and>
          sent s' = sent s @ [(501, Text ''NOK ('left' treshold not set yet)'')]) \<and>
      (let s' = handle_move_total_left s
       in g_data s' = g_data s \<and> eeprom s' = eeprom s \<and> motor s' = motor s \<and>
          sent s' = sent s @ [(501, Page)])) \<and>
   (right_not_set (g_data s) \<or>
    (position_right (g_data s) = Fin y \<and> is_f32 y \<and> \<bar>y - 100\<bar> < 1 / 100000) \<longrightarrow>
      (let s' = handle_api toFloat toInt
                  \<lparr>action = ''move_total_right'', value_arg = v, api = apikey (g_data s)\<rparr> s
       in g_data s' = g_data s \<and> eeprom s' = eeprom s \<and> motor s' = motor s \<and>
          sent s' = sent s @ [(501, Text ''NOK ('right' treshold not set yet)'')]) \<and>
      (let s' = handle_move_total_right s
       in g_data s' = g_data s \<and> eeprom s' = eeprom s \<and> motor s' = motor s \<and>
          sent s' = sent s @ [(501, Page)]))"
proof -
  have l: "left_not_set (g_data s)"
    if "left_not_set (g_data s) \<or>
        (position_left (g_data s) = Fin x \<and> is_f32 x \<and> \<bar>x - (- 100)\<bar> < 1 / 100000)"
    using that left_not_set_near by blast
  have r: "right_not_set (g_data s)"
    if "right_not_set (g_data s) \<or>
        (position_right (g_data s) = Fin y \<and> is_f32 y \<and> \<bar>y - 100\<bar> < 1 / 100000)"
    using that right_not_set_near by blast
  show ?thesis
    using move_total_gate(1) [OF l, of toFloat toInt v]
      move_total_gate(2) [OF r, of toFloat toInt v]
    by blast
qed

lemma default_thresholds:
  "position_left (g_data default_state) = Fin (- 100)" "is_f32 (- 100)"
  "position_right (g_data default_state) = Fin 100" "is_f32 100"
  by (simp_all add: default_state_def default_positions positions_simps is_f32_def fp_eval)

text \<open>The theorem at the default record, whose thresholds are the two defaults.\<close>

theorem move_total_not_calibrated_witness:
  "position_left (g_data default_state) = Fin (- 100) \<and> is_f32 (- 100) \<and>
   \<bar>- 100 - (- 100 :: real)\<bar> < 1 / 100000 \<and>
   position_right (g_data default_state) = Fin 100 \<and> is_f32 100 \<and>
   \<bar>100 - (100 :: real)\<bar> < 1 / 100000 \<and>
   g_data (handle_move_total_left default_state) = default_settings \<and>
   motor (handle_move_total_left default_state) = idle_motor \<and>
   sent (handle_move_total_left default_state) = [(501, Page)] \<and>
   g_data (handle_move_total_right default_state) = default_settings \<and>
   motor (handle_move_total_right default_state) = idle_motor \<and>
   sent (handle_move_total_right default_state) = [(501, Page)]"
  using move_total_not_calibrated [where s = default_state and toFloat = toFloat0
      and toInt = toInt0 and v = "[]" and x = "- 100" and y = 100] default_thresholds
  by (simp add: Let_def default_state_def)

section \<open>Setting a threshold\<close>

text \<open>
  C7.  The API action \<^verbatim>\<open>set_left\<close> takes the given value, or the current position when
  none is given; it rejects it (status 501, nothing changed) exactly when it is greater
  than \<^verbatim>\<open>right\<close> or greater than \<^verbatim>\<open>current\<close>, and otherwise commits it as \<^verbatim>\<open>left\<close>, so that
  the committed record has neither \<^verbatim>\<open>left > right\<close> nor \<^verbatim>\<open>left > current\<close>.  \<^verbatim>\<open>set_right\<close>
  is the mirror image, with \<^verbatim>\<open><\<close> against \<^verbatim>\<open>left\<close> and \<^verbatim>\<open>current\<close>.
\<close>

theorem set_threshold_checked:
  "(let d = g_data s;
        x = (if v = [] then position_current d else toFloat v);
        s' = handle_api toFloat toInt \<lparr>action = ''set_left'', value_arg = v, api = apikey d\<rparr> s
    in motor s' = motor s \<and>
       (if fp_gt x (position_right d) \<or> fp_gt x (position_current d) then
          g_data s' = d \<and> eeprom s' = eeprom s \<and>
          sent s' = sent s @
            [(501, Text ''NOK (treshold 'left' cannot be bigger than treshold 'right' for 'set_motor_left' action)'')]
        else
          g_data s' = d\<lparr>position_left := x\<rparr> \<and> eeprom s' = g_data s' \<and>
          sent s' = sent s @ [(200, Fmt ''OK (threshold 'left' set to value '%1.2f')'' [F x])] \<and>
          \<not> fp_gt (position_left (g_data s')) (position_right (g_data s')) \<and>
          \<not> fp_gt (position_left (g_data s')) (position_current (g_data s')))) \<and>
   (let d = g_data s;
        x = (if v = [] then position_current d else toFloat v);
        s' = handle_api toFloat toInt \<lparr>action = ''set_right'', value_arg = v, api = apikey d\<rparr> s
    in motor s' = motor s \<and>
       (if fp_lt x (position_left d) \<or> fp_lt x (position_current d) then
          g_data s' = d \<and> eeprom s' = eeprom s \<and>
          sent s' = sent s @
            [(501, Text ''NOK (treshold 'right' cannot be smaller than treshold 'left')'')]
        else
          g_data s' = d\<lparr>position_right := x\<rparr> \<and> eeprom s' = g_data s' \<and>
          sent s' = sent s @ [(200, Fmt ''OK (threshold 'right' set to value '%1.2f')'' [F x])] \<and>
          \<not> fp_lt (position_right (g_data s')) (position_left (g_data s')) \<and>
          \<not> fp_lt (position_right (g_data s')) (position_current (g_data s'))))"
  by (simp add: Let_def handle_api_authorized dispatch api_set_left_def api_set_right_def)

section \<open>A missing value\<close>

text \<open>
  C9, as amended.  Without a value the API actions \<^verbatim>\<open>move_motor\<close> and \<^verbatim>\<open>set_host\<close> answer
  with status 501 and the text that no value (no hostname) was supplied, and change
  neither the record nor the EEPROM nor the motor; \<^verbatim>\<open>set_language\<close> answers with status
  501 as well, but falls back to English: it stores language 0 and commits it.
\<close>

theorem missing_value_reported:
  "(let s' = handle_api toFloat toInt
               \<lparr>action = ''move_motor'', value_arg = [], api = apikey (g_data s)\<rparr> s
    in g_data s' = g_data s \<and> eeprom s' = eeprom s \<and> motor s' = motor s \<and>
       sent s' = sent s @ [(501, Text ''NOK (no value supplied for 'move_motor' action)'')]) \<and>
   (let s' = handle_api toFloat toInt
               \<lparr>action = ''set_host'', value_arg = [], api = apikey (g_data s)\<rparr> s
    in g_data s' = g_data s \<and> eeprom s' = eeprom s \<and> motor s' = motor s \<and>
       sent s' = sent s @ [(501, Text ''NOK (no hostname supplied for 'set_host' action)'')]) \<and>
   (let s' = handle_api toFloat toInt
               \<lparr>action = ''set_language'', value_arg = [], api = apikey (g_data s)\<rparr> s
    in g_data s' = (g_data s)\<lparr>language := 0\<rparr> \<and> eeprom s' = g_data s' \<and> motor s' = motor s \<and>
       sent s' = sent s @
         [(501, Text ''NOK (no language supplied for 'set_language' action, falling back to English'')])"
  by (simp add: Let_def handle_api_authorized dispatch api_move_motor_def api_set_host_def
      api_set_language_def)

text \<open>
  The claim as it stands fails on the default state: \<^verbatim>\<open>set_language\<close> without a value
  changes the stored language from 1 to 0, and \<^verbatim>\<open>motor_acceleration\<close> without a value
  answers \<^verbatim>\<open>OK\<close> and stores the acceleration 0 that \<^verbatim>\<open>toFloat\<close> reads from the empty
  string.
\<close>

theorem missing_value_counterexample:
  "language (g_data default_state) = 1 \<and>
   language (g_data (handle_api toFloat0 toInt0
      \<lparr>action = ''set_language'', value_arg = [], api = g_default_api_key\<rparr> default_state)) = 0 \<and>
   language (eeprom (handle_api toFloat0 toInt0
      \<lparr>action = ''set_language'', value_arg = [], api = g_default_api_key\<rparr> default_state)) = 0 \<and>
   motor_acceleration (g_data default_state) = Fin 100 \<and>
   motor_acceleration (eeprom (handle_api toFloat0 toInt0
      \<lparr>action = ''motor_acceleration'', value_arg = [], api = g_default_api_key\<rparr>
      default_state)) = Fin 0 \<and>
   sent (handle_api toFloat0 toInt0
      \<lparr>action = ''motor_acceleration'', value_arg = [], api = g_default_api_key\<rparr>
      default_state) = [(200, Text ''OK'')]"
proof -
  have k: "g_default_api_key = apikey (g_data default_state)"
    by (simp add: default_state_def default_settings_def)
  show ?thesis
    unfolding k
    by (simp add: handle_api_authorized dispatch api_set_language_def
        api_motor_acceleration_def apply_speed_settings_def Let_def)
       (simp add: default_state_def default_settings_def toFloat0_def)
qed

section \<open>The pass of \<^verbatim>\<open>loop\<close>\<close>

lemma loop_fields:
  "g_data (loop handleClient run wifi_lost reconnected s) = g_data (handleClient s)"
  "eeprom (loop handleClient run wifi_lost reconnected s) = eeprom (handleClient s)"
  "sent (loop handleClient run wifi_lost reconnected s) = sent (handleClient s)"
  by (simp_all add: loop_def wifi_reconnect_def Let_def)

lemma loop_counter:
  "currentPosition (motor (loop handleClient run False reconnected s)) =
   currentPosition (run (motor (handleClient s)))"
  "isRunning (motor (loop handleClient run False reconnected s)) =
   isRunning (run (motor (handleClient s)))"
  by (simp_all add: loop_def Let_def disableOutputs_def sleep_pin_def)

lemma loop_motor:
  "motor (loop handleClient run wifi_lost reconnected s) =
     (let m = run (motor (handleClient s));
          m' = (if isRunning m then m
                else if stepper_motor_and_driver (g_data (handleClient s)) = 0
                     then m\<lparr>calls := calls m @ [DisableOutputs]\<rparr>
                     else m\<lparr>calls := calls m @ [SleepPin False]\<rparr>)
      in if wifi_lost then run m' else m')"
  by (simp add: loop_def wifi_reconnect_def Let_def disableOutputs_def sleep_pin_def)

lemma loop_serial:
  "serial (loop handleClient run wifi_lost reconnected s) =
     serial (handleClient s) @
       (if wifi_lost then
          [''WiFi disconnected'', ''Starting WiFi again''] @ (if reconnected then [[]] else [])
        else [])"
  "restarted (loop handleClient run wifi_lost reconnected s) = restarted (handleClient s)"
  by (simp_all add: loop_def wifi_reconnect_def Let_def)

text \<open>
  No operation but \<^verbatim>\<open>stop_motor\<close> reads the step counter: from two states that differ
  in the counter only, it leads to two states that differ in the counter only.
\<close>

lemma sbc_println: "same_but_counter s t \<Longrightarrow> same_but_counter (println l s) (println l t)"
  by (simp add: same_but_counter_def)

lemma sbc_send: "same_but_counter s t \<Longrightarrow> same_but_counter (send c b s) (send c b t)"
  by (simp add: same_but_counter_def)

lemma sbc_data:
  "same_but_counter s t \<Longrightarrow>
   same_but_counter (commit (s\<lparr>g_data := d\<rparr>)) (commit (t\<lparr>g_data := d\<rparr>))"
  by (simp add: same_but_counter_def commit_def)

lemma sbc_move_motor:
  assumes "same_but_counter s t"
  shows "fst (move_motor x s) = fst (move_motor x t)"
    and "same_but_counter (snd (move_motor x s)) (snd (move_motor x t))"
  using assms
  by (simp_all add: same_but_counter_def move_motor_def Let_def commit_def println_def
      enableOutputs_def sleep_pin_def setCurrentPosition_def move_def split: prod.splits)

lemma sbc_api_set_api:
  "same_but_counter s t \<Longrightarrow> same_but_counter (api_set_api req s) (api_set_api req t)"
  by (simp add: same_but_counter_def api_set_api_def Let_def)

lemma sbc_branches:
  assumes "same_but_counter s t"
  shows "same_but_counter (api_reboot req s) (api_reboot req t)"
    and "same_but_counter (api_reset req s) (api_reset req t)"
    and "same_but_counter (api_set_host req s) (api_set_host req t)"
    and "same_but_counter (api_set_language toInt req s) (api_set_language toInt req t)"
    and "same_but_counter (api_reset_left s) (api_reset_left t)"
    and "same_but_counter (api_reset_current s) (api_reset_current t)"
    and "same_but_counter (api_reset_right s) (api_reset_right t)"
    and "same_but_counter (api_set_left toFloat req s) (api_set_left toFloat req t)"
    and "same_but_counter (api_set_right toFloat req s) (api_set_right toFloat req t)"
    and "same_but_counter (api_motor_acceleration toFloat req s)
           (api_motor_acceleration toFloat req t)"
    and "same_but_counter (api_motor_max_speed toFloat req s) (api_motor_max_speed toFloat req t)"
    and "same_but_counter (api_unknown s) (api_unknown t)"
  using assms
  by (simp_all add: same_but_counter_def api_reboot_def api_reset_def api_set_host_def
      api_set_language_def api_reset_left_def api_reset_current_def api_reset_right_def
      api_set_left_def api_set_right_def api_motor_acceleration_def api_motor_max_speed_def
      api_unknown_def apply_speed_settings_def setMaxSpeed_def setAcceleration_def Let_def)

lemma sbc_moves:
  assumes "same_but_counter s t"
  shows "same_but_counter (api_move_motor toFloat req s) (api_move_motor toFloat req t)"
    and "same_but_counter (api_move_total_left s) (api_move_total_left t)"
    and "same_but_counter (api_move_total_right s) (api_move_total_right t)"
    and "same_but_counter (handle_move_left x s) (handle_move_left x t)"
    and "same_but_counter (handle_move_right x s) (handle_move_right x t)"
    and "same_but_counter (handle_move_total_left s) (handle_move_total_left t)"
    and "same_but_counter (handle_move_total_right s) (handle_move_total_right t)"
proof -
  have g: "g_data s = g_data t" using assms by (simp add: same_but_counter_def)
  note p = sbc_println [OF assms]
  show "same_but_counter (api_move_motor toFloat req s) (api_move_motor toFloat req t)"
    using sbc_move_motor [OF p] p g
    by (simp add: api_move_motor_def Let_def split_beta sbc_send sbc_println)
  show "same_but_counter (api_move_total_left s) (api_move_total_left t)"
    using sbc_move_motor(2) [OF p] p g
    by (simp add: api_move_total_left_def Let_def sbc_send sbc_println)
  show "same_but_counter (api_move_total_right s) (api_move_total_right t)"
    using sbc_move_motor(2) [OF p] p g
    by (simp add: api_move_total_right_def Let_def sbc_send sbc_println)
  show "same_but_counter (handle_move_left x s) (handle_move_left x t)"
    using sbc_move_motor(2) [OF assms] by (simp add: handle_move_left_def sbc_send)
  show "same_but_counter (handle_move_right x s) (handle_move_right x t)"
    using sbc_move_motor(2) [OF assms] by (simp add: handle_move_right_def sbc_send)
  show "same_but_counter (handle_move_total_left s) (handle_move_total_left t)"
    using sbc_move_motor(2) [OF p] p g
    by (simp add: handle_move_total_left_def Let_def sbc_send sbc_println)
  show "same_but_counter (handle_move_total_right s) (handle_move_total_right t)"
    using sbc_move_motor(2) [OF p] p g
    by (simp add: handle_move_total_right_def Let_def sbc_send sbc_println)
qed

lemma sbc_buttons:
  assumes "same_but_counter s t"
  shows "same_but_counter (handle_reset_left s) (handle_reset_left t)"
    and "same_but_counter (handle_reset_current s) (handle_reset_current t)"
    and "same_but_counter (handle_reset_right s) (handle_reset_right t)"
    and "same_but_counter (handle_set_left s) (handle_set_left t)"
    and "same_but_counter (handle_set_right s) (handle_set_right t)"
  using assms
  by (simp_all add: same_but_counter_def handle_reset_left_def handle_reset_current_def
      handle_reset_right_def handle_set_left_def handle_set_right_def)

lemma sbc_dispatch:
  assumes "same_but_counter s t" "action req \<noteq> ''stop_motor''"
  shows "same_but_counter (api_dispatch toFloat toInt req s) (api_dispatch toFloat toInt req t)"
  using assms(2) sbc_branches [OF assms(1)] sbc_moves(1-3) [OF assms(1)]
  by (simp add: api_dispatch_def)

lemma sbc_handle_api:
  assumes "same_but_counter s t" "action req \<noteq> ''stop_motor''"
  shows "same_but_counter (handle_api toFloat toInt req s) (handle_api toFloat toInt req t)"
proof -
  note a = sbc_api_set_api [OF assms(1), of req]
  have g: "g_data (api_set_api req s) = g_data (api_set_api req t)"
    using a by (simp add: same_but_counter_def)
  show ?thesis
    using sbc_dispatch [OF a assms(2)] sbc_send [OF a]
    by (simp add: handle_api_def Let_def g)
qed

text \<open>
  C4, as amended.  A pass of \<^verbatim>\<open>loop()\<close> serves the client, lets the motor run and, when
  the motor is then idle, switches the motor outputs off (28BYJ-48) or sets the sleep
  pin low (Nema17); when the WiFi is lost, \<^verbatim>\<open>wifi_reconnect\<close> lets the motor run once
  more and writes its serial lines.  These are all the calls the pass makes on the
  motor: it sets no target, does not stop the motor and does not set the step counter.
  Beyond what the served request did, the pass changes neither the position record nor
  the EEPROM nor the answers sent.  The step counter is read by the \<^verbatim>\<open>stop_motor\<close>
  handlers only, which compute the position from it: whatever the counter holds, any
  other API action and the handlers of the other buttons (the three resets, the step
  buttons, set left and right, move total left and right) leave the same record,
  EEPROM, serial lines, answers and motor calls.  So a move that ends by itself keeps
  the planned position written before the move.
\<close>

theorem loop_keeps_record:
  "let s1 = handleClient s;
       m = run (motor s1);
       m' = (if isRunning m then m
             else if stepper_motor_and_driver (g_data s1) = 0
                  then m\<lparr>calls := calls m @ [DisableOutputs]\<rparr>
                  else m\<lparr>calls := calls m @ [SleepPin False]\<rparr>);
       s' = loop handleClient run wifi_lost reconnected s;
       moved = f64_to_f32 (f64_div (long_to_f64 (currentPosition (motor s)))
                 (f64_mul (steps_per_revolution (g_data s)) (Fin 1)));
       stopped = (if fp_gt (fp_abs moved) g_epsilon then
                    (g_data s)\<lparr>position_current :=
                       f32_add (position_current_previous (g_data s)) moved\<rparr>
                  else g_data s)
   in g_data s' = g_data s1 \<and> eeprom s' = eeprom s1 \<and> sent s' = sent s1 \<and>
      restarted s' = restarted s1 \<and>
      motor s' = (if wifi_lost then run m' else m') \<and>
      serial s' = serial s1 @
        (if wifi_lost then
           [''WiFi disconnected'', ''Starting WiFi again''] @ (if reconnected then [[]] else [])
         else []) \<and>
      (same_but_counter s t \<longrightarrow>
         (action req \<noteq> ''stop_motor'' \<longrightarrow>
            same_but_counter (handle_api toFloat toInt req s) (handle_api toFloat toInt req t)) \<and>
         same_but_counter (handle_reset_left s) (handle_reset_left t) \<and>
         same_but_counter (handle_reset_current s) (handle_reset_current t) \<and>
         same_but_counter (handle_reset_right s) (handle_reset_right t) \<and>
         same_but_counter (handle_move_left x s) (handle_move_left x t) \<and>
         same_but_counter (handle_move_right x s) (handle_move_right x t) \<and>
         same_but_counter (handle_set_left s) (handle_set_left t) \<and>
         same_but_counter (handle_set_right s) (handle_set_right t) \<and>
         same_but_counter (handle_move_total_left s) (handle_move_total_left t) \<and>
         same_but_counter (handle_move_total_right s) (handle_move_total_right t)) \<and>
      g_data (handle_stop_motor s) = stopped \<and>
      g_data (handle_api toFloat toInt
        \<lparr>action = ''stop_motor'', value_arg = v, api = apikey (g_data s)\<rparr> s) = stopped"
proof -
  have free: "(action req \<noteq> ''stop_motor'' \<longrightarrow>
            same_but_counter (handle_api toFloat toInt req s) (handle_api toFloat toInt req t)) \<and>
         same_but_counter (handle_reset_left s) (handle_reset_left t) \<and>
         same_but_counter (handle_reset_current s) (handle_reset_current t) \<and>
         same_but_counter (handle_reset_right s) (handle_reset_right t) \<and>
         same_but_counter (handle_move_left x s) (handle_move_left x t) \<and>
         same_but_counter (handle_move_right x s) (handle_move_right x t) \<and>
         same_but_counter (handle_set_left s) (handle_set_left t) \<and>
         same_but_counter (handle_set_right s) (handle_set_right t) \<and>
         same_but_counter (handle_move_total_left s) (handle_move_total_left t) \<and>
         same_but_counter (handle_move_total_right s) (handle_move_total_right t)"
    if "same_but_counter s t"
    using sbc_handle_api [OF that] sbc_buttons [OF that] sbc_moves(4-7) [OF that] by blast
  have stops: "g_data (handle_stop_motor s) = g_data (stop_and_reconcile s)"
    "g_data (handle_api toFloat toInt
        \<lparr>action = ''stop_motor'', value_arg = v, api = apikey (g_data s)\<rparr> s) =
     g_data (stop_and_reconcile s)"
    by (simp_all add: handle_api_authorized dispatch stop_handlers)
  show ?thesis
    using free
    by (simp add: Let_def stops stop_data_explicit loop_motor loop_serial loop_fields)
qed

lemma stale_fresh: "same_but_counter stale_counter fresh_counter"
  by (simp add: same_but_counter_def stale_counter_def fresh_counter_def idle_motor_def
      state_of_def)

text \<open>
  The theorem at the state with the counter of 102400 steps left from the last move and
  the same state with the counter at zero, for the API action \<^verbatim>\<open>move_motor\<close> with value 5,
  and at a pass in which the WiFi is lost and \<^verbatim>\<open>run()\<close> makes a step each time.
\<close>

theorem loop_keeps_record_witness:
  "same_but_counter stale_counter fresh_counter \<and>
   currentPosition (motor stale_counter) = 102400 \<and>
   currentPosition (motor fresh_counter) = 0 \<and>
   ''move_motor'' \<noteq> ''stop_motor'' \<and>
   same_but_counter
     (handle_api toFloat_five toInt0
        \<lparr>action = ''move_motor'', value_arg = ''5'', api = g_default_api_key\<rparr> stale_counter)
     (handle_api toFloat_five toInt0
        \<lparr>action = ''move_motor'', value_arg = ''5'', api = g_default_api_key\<rparr> fresh_counter) \<and>
   g_data (loop id last_step True False stale_counter) = g_data stale_counter \<and>
   eeprom (loop id last_step True False stale_counter) = eeprom stale_counter \<and>
   motor (loop id last_step True False stale_counter) =
     \<lparr>isRunning = False, currentPosition = 102402, calls = [DisableOutputs]\<rparr>"
  using loop_keeps_record [where s = stale_counter and t = fresh_counter
      and handleClient = id and run = last_step and wifi_lost = True and reconnected = False
      and toFloat = toFloat_five and toInt = toInt0
      and req = "\<lparr>action = ''move_motor'', value_arg = ''5'', api = g_default_api_key\<rparr>"]
    stale_fresh
  by (simp add: Let_def last_step_def stale_counter_def fresh_counter_def idle_motor_def
      positions_simps)

lemma short_sum: "f32_add (Fin 0) (Fin (3 / 4096)) = Fin (3 / 4096)"
  by (simp add: fp_eval)

lemma short_steps: "f32_to_long (f32_mul (Fin (3 / 4096)) (Fin 2048)) = Some 1"
  by (simp add: fp_eval)

lemma short_clamp:
  "clamp_rotations (positions (Fin (- 100)) (Fin 0) (Fin 0) (Fin 100)) (Fin (3 / 4096)) =
     (Fin (3 / 4096), positions (Fin (- 100)) (Fin 0) (Fin (3 / 4096)) (Fin 100))"
  unfolding clamp_rotations_def positions_simps short_sum
  by (simp add: fp_lt_def fp_gt_def)

lemma short_move_state:
  "g_data short_move = positions (Fin (- 100)) (Fin 0) (Fin (3 / 4096)) (Fin 100)"
  "eeprom short_move = positions (Fin (- 100)) (Fin 0) (Fin (3 / 4096)) (Fin 100)"
  "isRunning (motor short_move)"
  "currentPosition (motor short_move) = 0"
  unfolding short_move_def default_state_def default_positions move_motor_def state_of_fields
  by (simp_all add: idle_motor_def short_clamp positions_simps short_steps
      enableOutputs_def setCurrentPosition_def move_def)

lemma one_step_moved:
  "f64_to_f32 (f64_div (long_to_f64 1) (f64_mul (Fin 2048) (Fin 1))) = Fin (1 / 2048)"
  by (simp add: fp_eval)

lemma one_step_sum: "f32_add (Fin 0) (Fin (1 / 2048)) = Fin (1 / 2048)"
  by (simp add: fp_eval)

lemma gt_eps_one_step: "fp_gt (fp_abs (Fin (1 / 2048))) g_epsilon"
  unfolding g_epsilon_val by (simp add: fp_gt_def fp_lt_def)

text \<open>
  The claim as it stands fails on the pass in which the motor makes the one step of
  \<open>short_move\<close> and becomes idle: the step counter says the motor travelled
  \<^verbatim>\<open>1/2048\<close> of a revolution, more than \<^verbatim>\<open>g_epsilon\<close>, yet \<^verbatim>\<open>current\<close> stays the planned
  \<^verbatim>\<open>3/4096\<close>, not \<^verbatim>\<open>previous + moved\<close>, and the counter is not reset.
\<close>

theorem loop_no_reconcile_counterexample:
  "isRunning (motor short_move) \<and>
   \<not> isRunning (motor (loop id last_step False False short_move)) \<and>
   fp_gt (fp_abs (positions_moved (loop id last_step False False short_move))) g_epsilon \<and>
   position_current (g_data (loop id last_step False False short_move)) \<noteq>
     f32_add (position_current_previous (g_data (loop id last_step False False short_move)))
       (positions_moved (loop id last_step False False short_move)) \<and>
   position_current (g_data (loop id last_step False False short_move)) =
     position_current (g_data short_move) \<and>
   currentPosition (motor (loop id last_step False False short_move)) = 1"
proof -
  let ?s = "loop id last_step False False short_move"
  have d: "g_data ?s = positions (Fin (- 100)) (Fin 0) (Fin (3 / 4096)) (Fin 100)"
    by (simp add: loop_fields short_move_state)
  have c: "currentPosition (motor ?s) = 1" and r: "\<not> isRunning (motor ?s)"
    by (simp_all add: loop_counter last_step_def short_move_state)
  have m: "positions_moved ?s = Fin (1 / 2048)"
    unfolding positions_moved_def d c positions_simps one_step_moved by (rule refl)
  have ne: "Fin (3 / 4096) \<noteq> Fin (1 / 2048)"
    by simp
  show ?thesis
    unfolding m d positions_simps one_step_sum short_move_state
    using gt_eps_one_step ne r c short_move_state(3) by simp
qed

section \<open>The ordering of the record under each operation\<close>

lemma move_motor_ordered:
  assumes "ordered (g_data s)" and "\<not> is_nan (f32_add (position_current (g_data s)) x)"
  shows "ordered (g_data (snd (move_motor x s)))"
proof (cases "isRunning (motor s)")
  case True
  then show ?thesis using assms(1) by (simp add: move_motor_running)
next
  case False
  then show ?thesis
    using move_motor_idle [OF False, of x] clamp_rotations_ordered [OF assms] by simp
qed

lemma api_set_left_ordered:
  assumes "ordered (g_data s)" and "value_arg req = [] \<or> \<not> is_nan (toFloat (value_arg req))"
  shows "ordered (g_data (api_set_left toFloat req s))"
  using assms
  by (auto simp: api_set_left_def Let_def ordered_def dest: fp_le_not_nan
      intro: not_fp_gt_le fp_le_refl)

lemma api_set_right_ordered:
  assumes "ordered (g_data s)" and "value_arg req = [] \<or> \<not> is_nan (toFloat (value_arg req))"
  shows "ordered (g_data (api_set_right toFloat req s))"
  using assms
  by (auto simp: api_set_right_def Let_def ordered_def dest: fp_le_not_nan
      intro: not_fp_lt_le fp_le_refl)

lemma handle_set_ordered:
  assumes "ordered (g_data s)"
  shows "ordered (g_data (handle_set_left s))" "ordered (g_data (handle_set_right s))"
  using assms
  by (auto simp: handle_set_left_def handle_set_right_def ordered_def dest: fp_le_not_nan
      intro: fp_le_refl)

lemma reset_data:
  "g_data (api_reset_left s) = (g_data s)\<lparr>position_left := DEFAULT_POSITION_LEFT\<rparr>"
  "g_data (handle_reset_left s) = (g_data s)\<lparr>position_left := DEFAULT_POSITION_LEFT\<rparr>"
  "g_data (api_reset_right s) = (g_data s)\<lparr>position_right := DEFAULT_POSITION_RIGHT\<rparr>"
  "g_data (handle_reset_right s) = (g_data s)\<lparr>position_right := DEFAULT_POSITION_RIGHT\<rparr>"
  "g_data (api_reset_current s) =
     (g_data s)\<lparr>position_current_previous := DEFAULT_POSITION_CURRENT_PREVIOUS,
                position_current := DEFAULT_POSITION_CURRENT\<rparr>"
  "g_data (handle_reset_current s) =
     (g_data s)\<lparr>position_current_previous := DEFAULT_POSITION_CURRENT_PREVIOUS,
                position_current := DEFAULT_POSITION_CURRENT\<rparr>"
  by (simp_all add: api_reset_left_def handle_reset_left_def api_reset_right_def
      handle_reset_right_def api_reset_current_def handle_reset_current_def)

lemma move_handlers_data:
  "g_data (handle_move_left x s) = g_data (snd (move_motor x s))"
  "g_data (handle_move_right x s) = g_data (snd (move_motor x s))"
  "g_data (api_move_motor toFloat req s) =
     (if value_arg req = [] then g_data s
      else g_data (snd (move_motor (toFloat (value_arg req))
             (println ''Handle 'motor' action'' s))))"
  "g_data (api_move_total_left s) =
     (if left_not_set (g_data s) then g_data s
      else g_data (snd (move_motor DEFAULT_POSITION_LEFT
             (println ''Handle 'move_total_left' action'' s))))"
  "g_data (api_move_total_right s) =
     (if right_not_set (g_data s) then g_data s
      else g_data (snd (move_motor DEFAULT_POSITION_RIGHT
             (println ''Handle 'move_total_right' action'' s))))"
  "g_data (handle_move_total_left s) =
     (if left_not_set (g_data s) then g_data s
      else g_data (snd (move_motor DEFAULT_POSITION_LEFT
             (println ''[Move Total Left] pressed'' s))))"
  "g_data (handle_move_total_right s) =
     (if right_not_set (g_data s) then g_data s
      else g_data (snd (move_motor DEFAULT_POSITION_RIGHT
             (println ''[Move Total Right] pressed'' s))))"
  by (simp_all add: handle_move_left_def handle_move_right_def api_move_motor_def
      api_move_total_left_def api_move_total_right_def handle_move_total_left_def
      handle_move_total_right_def Let_def split_beta)

lemma reset_left_iff:
  "ordered d \<Longrightarrow>
   ordered (d\<lparr>position_left := DEFAULT_POSITION_LEFT\<rparr>) =
     fp_le DEFAULT_POSITION_LEFT (position_current d)"
  by (auto simp: ordered_def intro: fp_le_trans)

lemma reset_right_iff:
  "ordered d \<Longrightarrow>
   ordered (d\<lparr>position_right := DEFAULT_POSITION_RIGHT\<rparr>) =
     fp_le (position_current d) DEFAULT_POSITION_RIGHT"
  by (auto simp: ordered_def intro: fp_le_trans)

lemma reset_current_iff:
  "ordered d \<Longrightarrow>
   ordered (d\<lparr>position_current_previous := DEFAULT_POSITION_CURRENT_PREVIOUS,
              position_current := DEFAULT_POSITION_CURRENT\<rparr>) =
     (fp_le (position_left d) DEFAULT_POSITION_CURRENT \<and>
      fp_le DEFAULT_POSITION_CURRENT (position_right d))"
  by (auto simp: ordered_def)

lemma stop_iff:
  "ordered (g_data s) \<Longrightarrow>
   ordered (g_data (stop_and_reconcile s)) =
     (let moved = f64_to_f32 (f64_div (long_to_f64 (currentPosition (motor s)))
                    (f64_mul (steps_per_revolution (g_data s)) (Fin 1)));
          target = f32_add (position_current_previous (g_data s)) moved
      in if fp_gt (fp_abs moved) g_epsilon then
           fp_le (position_left (g_data s)) target \<and> fp_le target (position_right (g_data s))
         else True)"
  by (auto simp: stop_data_explicit Let_def ordered_def)

lemma move_println_ordered:
  "ordered (g_data s) \<Longrightarrow> \<not> is_nan (f32_add (position_current (g_data s)) x) \<Longrightarrow>
   ordered (g_data (snd (move_motor x (println l s))))"
  using move_motor_ordered [of "println l s" x] by simp

text \<open>
  C2, as amended.  From a record with \<^verbatim>\<open>left <= current <= right\<close> and \<^verbatim>\<open>left <= right\<close>,
  the record is ordered in the same way after every move (\<^verbatim>\<open>move_motor\<close>, the step
  buttons and the API action \<^verbatim>\<open>move_motor\<close>, when the \<^verbatim>\<open>float\<close> sum of \<^verbatim>\<open>current\<close> and the
  delta is not a NaN; \<^verbatim>\<open>move_total_left\<close> and \<^verbatim>\<open>move_total_right\<close> always), after the API
  actions \<^verbatim>\<open>set_left\<close> and \<^verbatim>\<open>set_right\<close> (with no value, or a value that is not a NaN),
  accepted or rejected, and after the web buttons that set a threshold to the current
  position.  After a reset the record is ordered exactly when the default written
  lies on the right side: \<^verbatim>\<open>reset_left\<close> exactly when \<^verbatim>\<open>-100 <= current\<close>, \<^verbatim>\<open>reset_right\<close>
  exactly when \<^verbatim>\<open>current <= 100\<close>, \<^verbatim>\<open>reset_current\<close> exactly when \<^verbatim>\<open>left <= 0 <= right\<close>.
  After \<^verbatim>\<open>stop_motor\<close> it is ordered exactly when the step counter shows no move
  (\<^verbatim>\<open>fabs(moved) > g_epsilon\<close> is false, \<open>moved\<close> being the counter divided by
  \<^verbatim>\<open>steps_per_revolution\<close>) or the position \<^verbatim>\<open>previous + moved\<close> lies between the
  thresholds.
\<close>

theorem ordering_preserved:
  assumes "ordered (g_data s)"
  shows "let d = g_data s;
             after = (\<lambda>a. g_data (handle_api toFloat toInt
                        \<lparr>action = a, value_arg = v, api = apikey d\<rparr> s));
             moved = f64_to_f32 (f64_div (long_to_f64 (currentPosition (motor s)))
                       (f64_mul (steps_per_revolution d) (Fin 1)));
             target = f32_add (position_current_previous d) moved;
             stop_keeps = (if fp_gt (fp_abs moved) g_epsilon then
                             fp_le (position_left d) target \<and> fp_le target (position_right d)
                           else True)
         in (\<not> is_nan (f32_add (position_current d) x) \<longrightarrow>
               ordered (g_data (snd (move_motor x s))) \<and>
               ordered (g_data (handle_move_left x s)) \<and>
               ordered (g_data (handle_move_right x s))) \<and>
            (v = [] \<or> \<not> is_nan (f32_add (position_current d) (toFloat v)) \<longrightarrow>
               ordered (after ''move_motor'')) \<and>
            ordered (after ''move_total_left'') \<and>
            ordered (after ''move_total_right'') \<and>
            ordered (g_data (handle_move_total_left s)) \<and>
            ordered (g_data (handle_move_total_right s)) \<and>
            (v = [] \<or> \<not> is_nan (toFloat v) \<longrightarrow>
               ordered (after ''set_left'') \<and> ordered (after ''set_right'')) \<and>
            ordered (g_data (handle_set_left s)) \<and>
            ordered (g_data (handle_set_right s)) \<and>
            (ordered (after ''reset_left'') \<longleftrightarrow>
               fp_le DEFAULT_POSITION_LEFT (position_current d)) \<and>
            (ordered (g_data (handle_reset_left s)) \<longleftrightarrow>
               fp_le DEFAULT_POSITION_LEFT (position_current d)) \<and>
            (ordered (after ''reset_right'') \<longleftrightarrow>
               fp_le (position_current d) DEFAULT_POSITION_RIGHT) \<and>
            (ordered (g_data (handle_reset_right s)) \<longleftrightarrow>
               fp_le (position_current d) DEFAULT_POSITION_RIGHT) \<and>
            (ordered (after ''reset_current'') \<longleftrightarrow>
               fp_le (position_left d) DEFAULT_POSITION_CURRENT \<and>
               fp_le DEFAULT_POSITION_CURRENT (position_right d)) \<and>
            (ordered (g_data (handle_reset_current s)) \<longleftrightarrow>
               fp_le (position_left d) DEFAULT_POSITION_CURRENT \<and>
               fp_le DEFAULT_POSITION_CURRENT (position_right d)) \<and>
            (ordered (after ''stop_motor'') \<longleftrightarrow> stop_keeps) \<and>
            (ordered (g_data (handle_stop_motor s)) \<longleftrightarrow> stop_keeps)"
proof -
  let ?req = "\<lambda>a. \<lparr>action = a, value_arg = v, api = apikey (g_data s)\<rparr>"
  let ?after = "\<lambda>a. g_data (handle_api toFloat toInt (?req a) s)"
  have api:
    "?after ''move_motor'' = g_data (api_move_motor toFloat (?req ''move_motor'') s)"
    "?after ''move_total_left'' = g_data (api_move_total_left s)"
    "?after ''move_total_right'' = g_data (api_move_total_right s)"
    "?after ''set_left'' = g_data (api_set_left toFloat (?req ''set_left'') s)"
    "?after ''set_right'' = g_data (api_set_right toFloat (?req ''set_right'') s)"
    "?after ''reset_left'' = g_data (api_reset_left s)"
    "?after ''reset_right'' = g_data (api_reset_right s)"
    "?after ''reset_current'' = g_data (api_reset_current s)"
    "?after ''stop_motor'' = g_data (stop_and_reconcile s)"
    by (simp_all add: handle_api_authorized dispatch stop_handlers)
  have nn: "\<not> is_nan (position_current (g_data s))"
    using assms by (auto simp: ordered_def dest: fp_le_not_nan)
  have total: "\<not> is_nan (f32_add (position_current (g_data s)) DEFAULT_POSITION_LEFT)"
    "\<not> is_nan (f32_add (position_current (g_data s)) DEFAULT_POSITION_RIGHT)"
    using nn by (simp_all add: DEFAULT_POSITION_LEFT_def DEFAULT_POSITION_RIGHT_def
        f32_add_fin_not_nan)
  have sets: "v = [] \<or> \<not> is_nan (toFloat v) \<longrightarrow>
      ordered (?after ''set_left'') \<and> ordered (?after ''set_right'')"
    unfolding api using assms by (simp add: api_set_left_ordered api_set_right_ordered)
  have moves: "\<not> is_nan (f32_add (position_current (g_data s)) x) \<longrightarrow>
      ordered (g_data (snd (move_motor x s))) \<and>
      ordered (g_data (handle_move_left x s)) \<and>
      ordered (g_data (handle_move_right x s))"
    using assms by (simp add: move_handlers_data(1,2) move_motor_ordered)
  have api_move:
    "v = [] \<or> \<not> is_nan (f32_add (position_current (g_data s)) (toFloat v)) \<longrightarrow>
       ordered (?after ''move_motor'')"
    unfolding api using assms by (auto simp: move_handlers_data move_println_ordered)
  have totals: "ordered (?after ''move_total_left'')"
    "ordered (?after ''move_total_right'')"
    "ordered (g_data (handle_move_total_left s))"
    "ordered (g_data (handle_move_total_right s))"
    unfolding api using assms total by (simp_all add: move_handlers_data move_println_ordered)
  have buttons: "ordered (g_data (handle_set_left s))" "ordered (g_data (handle_set_right s))"
    using assms by (rule handle_set_ordered)+
  have resets:
    "ordered (?after ''reset_left'') \<longleftrightarrow>
       fp_le DEFAULT_POSITION_LEFT (position_current (g_data s))"
    "ordered (g_data (handle_reset_left s)) \<longleftrightarrow>
       fp_le DEFAULT_POSITION_LEFT (position_current (g_data s))"
    "ordered (?after ''reset_right'') \<longleftrightarrow>
       fp_le (position_current (g_data s)) DEFAULT_POSITION_RIGHT"
    "ordered (g_data (handle_reset_right s)) \<longleftrightarrow>
       fp_le (position_current (g_data s)) DEFAULT_POSITION_RIGHT"
    "ordered (?after ''reset_current'') \<longleftrightarrow>
       fp_le (position_left (g_data s)) DEFAULT_POSITION_CURRENT \<and>
       fp_le DEFAULT_POSITION_CURRENT (position_right (g_data s))"
    "ordered (g_data (handle_reset_current s)) \<longleftrightarrow>
       fp_le (position_left (g_data s)) DEFAULT_POSITION_CURRENT \<and>
       fp_le DEFAULT_POSITION_CURRENT (position_right (g_data s))"
    unfolding api reset_data
    using reset_left_iff [OF assms] reset_right_iff [OF assms] reset_current_iff [OF assms]
    by blast+
  have stops: "ordered (?after ''stop_motor'') \<longleftrightarrow>
      (let moved = f64_to_f32 (f64_div (long_to_f64 (currentPosition (motor s)))
                    (f64_mul (steps_per_revolution (g_data s)) (Fin 1)));
          target = f32_add (position_current_previous (g_data s)) moved
      in if fp_gt (fp_abs moved) g_epsilon then
           fp_le (position_left (g_data s)) target \<and> fp_le target (position_right (g_data s))
         else True)"
    "ordered (g_data (handle_stop_motor s)) \<longleftrightarrow>
      (let moved = f64_to_f32 (f64_div (long_to_f64 (currentPosition (motor s)))
                    (f64_mul (steps_per_revolution (g_data s)) (Fin 1)));
          target = f32_add (position_current_previous (g_data s)) moved
      in if fp_gt (fp_abs moved) g_epsilon then
           fp_le (position_left (g_data s)) target \<and> fp_le target (position_right (g_data s))
         else True)"
    unfolding api stop_handlers using stop_iff [OF assms] by blast+
  show ?thesis
    using sets moves api_move totals buttons resets stops
    unfolding Let_def by blast
qed

lemma after_five_fields:
  "position_left (g_data after_five) = Fin (- 20)"
  "position_current_previous (g_data after_five) = Fin 0"
  "position_current (g_data after_five) = Fin 5"
  "position_right (g_data after_five) = Fin 10"
  "steps_per_revolution (g_data after_five) = Fin 200"
  "currentPosition (motor after_five) = 1000"
  "isRunning (motor after_five) = False"
  by (simp_all add: after_five_def positions_simps)

lemma after_five_ordered: "ordered (g_data after_five)"
  unfolding ordered_def after_five_fields by (simp add: fp_le_def)

lemma add_5_100: "f32_add (Fin 5) (Fin 100) = Fin 105"
  by (simp add: fp_eval)

lemma add_0_5: "f32_add (Fin 0) (Fin 5) = Fin 5"
  by (simp add: fp_eval)

lemma moved_1000_of_200:
  "f64_to_f32 (f64_div (long_to_f64 1000) (f64_mul (Fin 200) (Fin 1))) = Fin 5"
  by (simp add: fp_eval)

lemma gt_eps_5: "fp_gt (fp_abs (Fin 5)) g_epsilon"
  unfolding g_epsilon_val by (simp add: fp_gt_def fp_lt_def)

lemma after_five_clamped:
  "position_current (g_data (snd (move_motor (Fin 100) after_five))) = Fin 10"
proof -
  have idle: "\<not> isRunning (motor after_five)" by (simp add: after_five_fields)
  show ?thesis
    using move_motor_idle [OF idle, of "Fin 100"]
    by (simp add: clamp_rotations_def after_five_fields add_5_100 fp_lt_def fp_gt_def)
qed

lemma after_five_resets:
  "position_left (g_data (handle_reset_left after_five)) = Fin (- 100)"
  "position_right (g_data (handle_reset_right after_five)) = Fin 100"
  "position_current (g_data (handle_reset_current after_five)) = Fin 0"
  by (simp_all add: reset_data DEFAULT_POSITION_LEFT_def DEFAULT_POSITION_RIGHT_def
      DEFAULT_POSITION_CURRENT_def)

lemma after_five_set_left:
  "position_left (g_data (handle_api toFloat_five toInt0
     \<lparr>action = ''set_left'', value_arg = ''5'', api = apikey (g_data after_five)\<rparr>
     after_five)) = Fin 5"
  by (simp add: handle_api_authorized dispatch api_set_left_def Let_def toFloat_five_def
      after_five_fields fp_gt_def fp_lt_def)

text \<open>
  The theorem at a record where every operation has an effect: the move by 100 is
  clamped at the right threshold, \<^verbatim>\<open>set_left\<close> with value 5 is accepted, each reset
  replaces a value, and the stop recomputes the position from the 1000 steps; and at
  the motor stopped after 150 steps of its move, where the stop changes the position.
\<close>

theorem ordering_preserved_witness:
  "ordered (g_data after_five) \<and>
   \<not> is_nan (f32_add (position_current (g_data after_five)) (Fin 100)) \<and>
   \<not> is_nan (toFloat_five ''5'') \<and>
   fp_le DEFAULT_POSITION_LEFT (position_current (g_data after_five)) \<and>
   fp_le (position_current (g_data after_five)) DEFAULT_POSITION_RIGHT \<and>
   fp_le (position_left (g_data after_five)) DEFAULT_POSITION_CURRENT \<and>
   fp_le DEFAULT_POSITION_CURRENT (position_right (g_data after_five)) \<and>
   ordered (g_data (snd (move_motor (Fin 100) after_five))) \<and>
   position_current (g_data (snd (move_motor (Fin 100) after_five))) = Fin 10 \<and>
   ordered (g_data (handle_api toFloat_five toInt0
     \<lparr>action = ''set_left'', value_arg = ''5'', api = apikey (g_data after_five)\<rparr>
     after_five)) \<and>
   position_left (g_data (handle_api toFloat_five toInt0
     \<lparr>action = ''set_left'', value_arg = ''5'', api = apikey (g_data after_five)\<rparr>
     after_five)) = Fin 5 \<and>
   ordered (g_data (handle_set_right after_five)) \<and>
   ordered (g_data (handle_reset_left after_five)) \<and>
   position_left (g_data (handle_reset_left after_five)) = Fin (- 100) \<and>
   ordered (g_data (handle_reset_right after_five)) \<and>
   position_right (g_data (handle_reset_right after_five)) = Fin 100 \<and>
   ordered (g_data (handle_reset_current after_five)) \<and>
   position_current (g_data (handle_reset_current after_five)) = Fin 0 \<and>
   ordered (g_data (handle_stop_motor after_five)) \<and>
   ordered (g_data stopped_early) \<and>
   ordered (g_data (handle_stop_motor stopped_early)) \<and>
   position_current (g_data stopped_early) = Fin 40 \<and>
   position_current (g_data (handle_stop_motor stopped_early)) = Fin (43 / 4)"
proof -
  have h1: "\<not> is_nan (f32_add (position_current (g_data after_five)) (Fin 100))"
    unfolding after_five_fields add_5_100 by simp
  have h2: "\<not> is_nan (toFloat_five ''5'')" by (simp add: toFloat_five_def)
  have h3: "fp_le DEFAULT_POSITION_LEFT (position_current (g_data after_five))"
    "fp_le (position_current (g_data after_five)) DEFAULT_POSITION_RIGHT"
    "fp_le (position_left (g_data after_five)) DEFAULT_POSITION_CURRENT"
    "fp_le DEFAULT_POSITION_CURRENT (position_right (g_data after_five))"
    unfolding after_five_fields DEFAULT_POSITION_LEFT_def DEFAULT_POSITION_RIGHT_def
      DEFAULT_POSITION_CURRENT_def by (simp_all add: fp_le_def)
  have h4: "fp_gt (fp_abs (Fin 5)) g_epsilon \<and>
      fp_le (Fin (- 20)) (Fin 5) \<and> fp_le (Fin 5) (Fin 10)"
    using gt_eps_5 by (simp add: fp_le_def)
  have o: "ordered (g_data stopped_early)"
    unfolding ordered_def by (simp add: stopped_early_more positions_simps fp_le_def)
  have h5: "fp_gt (fp_abs (Fin (3 / 4))) g_epsilon \<and>
      fp_le (Fin 0) (Fin (43 / 4)) \<and> fp_le (Fin (43 / 4)) (Fin 100)"
    using gt_eps_3_4 by (simp add: fp_le_def)
  have f: "position_left (g_data stopped_early) = Fin 0"
    "position_right (g_data stopped_early) = Fin 100"
    "position_current (g_data stopped_early) = Fin 40"
    by (simp_all add: stopped_early_more positions_simps)
  have c: "position_current (g_data (handle_stop_motor stopped_early)) = Fin (43 / 4)"
    using gt_eps_3_4
    by (simp add: stop_handlers stop_data_explicit Let_def stopped_early_fields
        moved_150_of_200 add_10_3_4)
  note t1 = ordering_preserved [OF after_five_ordered, where x = "Fin 100" and v = "''5''"
      and toFloat = toFloat_five and toInt = toInt0,
      unfolded Let_def after_five_fields moved_1000_of_200 add_0_5]
  note t2 = ordering_preserved [OF o, where x = "Fin 0" and v = "[]"
      and toFloat = toFloat0 and toInt = toInt0,
      unfolded Let_def stopped_early_fields f moved_150_of_200 add_10_3_4]
  show ?thesis
    using t1 t2 after_five_ordered o h1 h2 h3 h4 h5 c f(3) after_five_clamped after_five_resets
      after_five_set_left
    unfolding after_five_fields
    by (simp add: DEFAULT_POSITION_LEFT_def DEFAULT_POSITION_RIGHT_def DEFAULT_POSITION_CURRENT_def)
qed

lemma left_at_ten_ordered: "ordered (g_data left_at_ten)"
  by (simp add: left_at_ten_def ordered_def positions_simps fp_le_def)

text \<open>
  The claim as it stands fails for a reset and for a stop.  With the left threshold
  calibrated at the current position 10, \<^verbatim>\<open>reset_current\<close> (API action and web button)
  commits \<^verbatim>\<open>current = 0\<close>, below \<^verbatim>\<open>left\<close>.  With a counter of 102400 steps left from a
  move of 50 revolutions, \<^verbatim>\<open>previous = current = 0\<close> and \<^verbatim>\<open>right = 10\<close>, \<^verbatim>\<open>stop_motor\<close>
  (API action and web button) commits \<^verbatim>\<open>current = 50\<close>, above \<^verbatim>\<open>right\<close>.
\<close>

theorem reset_breaks_ordering_counterexample:
  "ordered (g_data left_at_ten) \<and>
   \<not> ordered (g_data (api_call ''reset_current'' left_at_ten)) \<and>
   \<not> ordered (eeprom (api_call ''reset_current'' left_at_ten)) \<and>
   \<not> ordered (g_data (handle_reset_current left_at_ten)) \<and>
   ordered (g_data stale_counter) \<and>
   \<not> ordered (g_data (api_call ''stop_motor'' stale_counter)) \<and>
   \<not> ordered (eeprom (api_call ''stop_motor'' stale_counter)) \<and>
   \<not> ordered (g_data (handle_stop_motor stale_counter))"
proof -
  have r: "\<not> ordered (g_data (api_reset_current left_at_ten))"
    "\<not> ordered (eeprom (api_reset_current left_at_ten))"
    "\<not> ordered (g_data (handle_reset_current left_at_ten))"
    by (simp_all add: reset_data api_reset_current_def)
       (simp_all add: left_at_ten_def ordered_def positions_def DEFAULT_POSITION_CURRENT_def
          fp_le_def)
  have b: "ordered (g_data stale_counter)"
    by (simp add: stale_counter_def ordered_def positions_simps fp_le_def)
  have a: "\<not> ordered (positions (Fin (- 100)) (Fin 0) (Fin 50) (Fin 10))"
    by (simp add: ordered_def positions_simps fp_le_def)
  have e: "eeprom (stop_and_reconcile stale_counter) = g_data (stop_and_reconcile stale_counter)"
    using gt_eps_50 by (simp add: stop_and_reconcile_data stale_counter_moved)
  show ?thesis
    unfolding api_call_simps stop_handlers e stale_counter_stopped
    using left_at_ten_ordered r b a by blast
qed

end
